theory Spec2Isabelle
  imports Main "HOL-Library.Multiset" "HOL-Library.Sublist"
begin

section \<open>Source ranges\<close>

text \<open>
  \<^verbatim>\<open>DriverIncrementalRanges.cpp\<close> works on \<^verbatim>\<open>SerializableSourceRange\<close> values
  and on three static helpers of that class (\<^verbatim>\<open>RangesForWholeFile\<close>,
  \<^verbatim>\<open>findAllOutliers\<close>, \<^verbatim>\<open>findOutlierIfAny\<close>). Their declarations and bodies
  live in a header and a translation unit that are not among the sources at hand, so
  this section follows the written specification (sections 3 and 4.1).
\<close>

type_synonym SerializableSourceLocation = "nat \<times> nat"

text \<open>
  Modelled from the spec: the type of text ranges is missing. A range is a span with
  a (line, column) start and end, in one of two forms: a normal range or the whole-unit
  sentinel.
\<close>

datatype SerializableSourceRange =
    SourceRange (rangeStart: SerializableSourceLocation) (rangeEnd: SerializableSourceLocation)
  | WholeFile

type_synonym Ranges = "SerializableSourceRange list"

text \<open>
  Modelled from the spec: the order on locations is missing. It is the (line, column)
  order: by line, then by column.
\<close>

fun locLe :: "SerializableSourceLocation \<Rightarrow> SerializableSourceLocation \<Rightarrow> bool" where
  "locLe (l1, c1) (l2, c2) = (l1 < l2 \<or> (l1 = l2 \<and> c1 \<le> c2))"

text \<open>
  Modelled from the spec: the containment test is missing. \<open>contains a b\<close> is true iff
  \<open>b\<close> starts no earlier than \<open>a\<close> and ends no later; a range contains itself. The
  sentinel spans the entire document and is never contained in a normal range.
\<close>

fun contains :: "SerializableSourceRange \<Rightarrow> SerializableSourceRange \<Rightarrow> bool" where
  "contains (SourceRange s e) (SourceRange s' e') = (locLe s s' \<and> locLe e' e)"
| "contains WholeFile b = True"
| "contains (SourceRange s e) WholeFile = False"

text \<open>
  Modelled from the spec: \<^verbatim>\<open>SerializableSourceRange::findAllOutliers\<close> is missing.
  It returns the ordered subsequence of the candidates that no reference range contains.
\<close>

definition findAllOutliers :: "Ranges \<Rightarrow> Ranges \<Rightarrow> Ranges" where
  "findAllOutliers subsetRanges supersetRanges =
     filter (\<lambda>r. \<not> list_ex (\<lambda>s. contains s r) supersetRanges) subsetRanges"

text \<open>
  Modelled from the spec: \<^verbatim>\<open>SerializableSourceRange::findOutlierIfAny\<close> is missing.
  It is the short-circuiting variant: the first outlier in candidate order, or none.
\<close>

definition findOutlierIfAny :: "Ranges \<Rightarrow> Ranges \<Rightarrow> SerializableSourceRange option" where
  "findOutlierIfAny subsetRanges supersetRanges =
     find (\<lambda>r. \<not> list_ex (\<lambda>s. contains s r) supersetRanges) subsetRanges"

text \<open>
  Modelled from the spec: \<^verbatim>\<open>SerializableSourceRange::RangesForWholeFile\<close> is missing.
  It is the whole-unit-changed sentinel set: the one sentinel range.
\<close>

definition RangesForWholeFile :: Ranges where
  "RangesForWholeFile = [WholeFile]"


section \<open>Records, per-unit state and jobs\<close>

type_synonym path = string

text \<open>
  \<^verbatim>\<open>SwiftRangesFileContents\<close>: the two mappings of the side-car record. The source
  reads \<^verbatim>\<open>noninlinableFunctionBodies\<close> (line 211) and looks keys up in
  \<^verbatim>\<open>unparsedRangesByNonPrimary\<close> (line 285). A key that is absent is different from
  a key bound to the empty list.
\<close>

record SwiftRangesFileContents =
  noninlinableFunctionBodies :: Ranges
  unparsedRangesByNonPrimary :: "path \<rightharpoonup> Ranges"

text \<open>The default-constructed \<^verbatim>\<open>SwiftRangesFileContents()\<close> of line 54.\<close>

definition emptySwiftRangesFileContents :: SwiftRangesFileContents where
  "emptySwiftRangesFileContents =
     \<lparr>noninlinableFunctionBodies = [], unparsedRangesByNonPrimary = Map.empty\<rparr>"

text \<open>\<^verbatim>\<open>SourceRangeBasedInfo\<close>, with the three members its constructor sets (lines 40-45).\<close>

record SourceRangeBasedInfo =
  swiftRangesFileContents :: SwiftRangesFileContents
  changedRanges :: Ranges
  nonlocalChangedRanges :: Ranges

text \<open>
  \<^verbatim>\<open>llvm::StringMap<SourceRangeBasedInfo>\<close>. The list order stands for the order in
  which a range-for loop visits the entries, which a hash table does not fix; \<open>find\<close>
  and \<open>count\<close> are \<^const>\<open>map_of\<close>. \<^verbatim>\<open>insert\<close> leaves an entry that is already there
  untouched.
\<close>

type_synonym AllInfos = "(path \<times> SourceRangeBasedInfo) list"

definition StringMap_insert :: "path \<Rightarrow> SourceRangeBasedInfo \<Rightarrow> AllInfos \<Rightarrow> AllInfos" where
  "StringMap_insert k v m = (if map_of m k = None then m @ [(k, v)] else m)"

text \<open>
  What the driver reads of a \<^verbatim>\<open>Job\<close>: \<^verbatim>\<open>getFirstSwiftPrimaryInput()\<close> (empty for a
  job that compiles nothing) and the two additional outputs
  \<^verbatim>\<open>TY_CompiledSource\<close> and \<^verbatim>\<open>TY_SwiftRanges\<close>. The source handles jobs by
  pointer; here a job is identified by its value.
\<close>

record Job =
  getFirstSwiftPrimaryInput :: path
  compiledSourceOutput :: path
  swiftRangesOutput :: path

text \<open>
  \<^verbatim>\<open>llvm::sys::path::filename\<close> (POSIX style): the component after the last
  separator; \<^verbatim>\<open>.\<close> for a path that ends in a separator, \<^verbatim>\<open>/\<close> for the root.
\<close>

definition filename :: "path \<Rightarrow> string" where
  "filename p =
     (if p = [] then []
      else if last p = CHR ''/'' then (if set p = {CHR ''/''} then ''/'' else ''.'')
      else rev (takeWhile (\<lambda>c. c \<noteq> CHR ''/'') (rev p)))"


section \<open>Collaborators\<close>

text \<open>
  The file system, the diagnostic engine and the two output streams are state that the
  loading functions read and change. A file has a modification time and a buffer; each
  of the two can be unobtainable, with the message of the error code.
\<close>

record fileNode =
  lastModificationTime :: "string + nat"
  fileBuffer :: "string + string"

text \<open>\<^verbatim>\<open>llvm::MemoryBuffer\<close>: the text and the identifier (the path it was read from).\<close>

record MemoryBuffer =
  getBufferIdentifier :: string
  getBuffer :: string

text \<open>The driver diagnostics the source emits, with their arguments.\<close>

datatype diagnostic =
    warn_unable_to_load_swift_ranges path string
  | warn_unable_to_load_compiled_swift path string
  | warn_unable_to_load_primary path string
  | warn_bad_swift_ranges_header string
  | warn_bad_swift_ranges_format string string
  | warn_cannot_stat_input string string

text \<open>
  The calls made to collaborators, kept in order in the field \<open>calls\<close>. The source
  keeps no such list; it is there so that "this was not read" can be stated.
\<close>

datatype call =
    CallExists path
  | CallStatus path
  | CallGetFile path
  | CallRemove path
  | CallCompare string string

record world =
  files :: "path \<rightharpoonup> fileNode"
  removeFails :: "path \<Rightarrow> bool"
  diags :: "diagnostic list"
  errs :: "string list"
  outs :: "string list"
  calls :: "call list"

text \<open>
  The parts that are consumed but defined elsewhere, taken as parameters: the literal
  \<^verbatim>\<open>header\<close> of a side-car file, the YAML reader (an error message or the decoded
  contents) and the source comparator (\<^verbatim>\<open>compare\<close> followed by
  \<^verbatim>\<open>convertAllMismatches().lhs()\<close>).
\<close>

record collaborators =
  header :: string
  yamlRead :: "string \<Rightarrow> string + SwiftRangesFileContents"
  sourceCompare :: "string \<Rightarrow> string \<Rightarrow> Ranges"

definition recordCall :: "call \<Rightarrow> world \<Rightarrow> world" where
  "recordCall c w = w\<lparr>calls := calls w @ [c]\<rparr>"

definition diagnose :: "diagnostic \<Rightarrow> world \<Rightarrow> world" where
  "diagnose d w = w\<lparr>diags := diags w @ [d]\<rparr>"

definition errsPrint :: "string \<Rightarrow> world \<Rightarrow> world" where
  "errsPrint s w = w\<lparr>errs := errs w @ [s]\<rparr>"

definition outsPrint :: "string \<Rightarrow> world \<Rightarrow> world" where
  "outsPrint s w = w\<lparr>outs := outs w @ [s]\<rparr>"

text \<open>\<^verbatim>\<open>llvm::sys::fs::exists\<close>.\<close>

definition fs_exists :: "path \<Rightarrow> world \<Rightarrow> bool \<times> world" where
  "fs_exists p w = (files w p \<noteq> None, recordCall (CallExists p) w)"

text \<open>\<^verbatim>\<open>llvm::sys::fs::status\<close>, read for the modification time.\<close>

definition fs_status :: "path \<Rightarrow> world \<Rightarrow> (string + nat) \<times> world" where
  "fs_status p w =
     ((case files w p of
         None \<Rightarrow> Inl ''No such file or directory''
       | Some f \<Rightarrow> lastModificationTime f),
      recordCall (CallStatus p) w)"

text \<open>\<^verbatim>\<open>llvm::MemoryBuffer::getFile\<close>.\<close>

definition fs_getFile :: "path \<Rightarrow> world \<Rightarrow> (string + MemoryBuffer) \<times> world" where
  "fs_getFile p w =
     ((case files w p of
         None \<Rightarrow> Inl ''No such file or directory''
       | Some f \<Rightarrow>
           (case fileBuffer f of
              Inl msg \<Rightarrow> Inl msg
            | Inr bytes \<Rightarrow> Inr \<lparr>getBufferIdentifier = p, getBuffer = bytes\<rparr>)),
      recordCall (CallGetFile p) w)"

text \<open>\<^verbatim>\<open>llvm::sys::fs::remove\<close>: the flag says whether it succeeded.\<close>

definition fs_remove :: "path \<Rightarrow> world \<Rightarrow> bool \<times> world" where
  "fs_remove p w =
     (if removeFails w p then (False, recordCall (CallRemove p) w)
      else (True, recordCall (CallRemove p) (w\<lparr>files := (files w)(p := None)\<rparr>)))"


section \<open>Loading\<close>

text \<open>\<^verbatim>\<open>SourceRangeBasedInfo::wholeFileChanged\<close> (lines 53-57).\<close>

definition wholeFileChanged :: "SourceRangeBasedInfo option" where
  "wholeFileChanged =
     Some \<lparr>swiftRangesFileContents = emptySwiftRangesFileContents,
           changedRanges = RangesForWholeFile,
           nonlocalChangedRanges = RangesForWholeFile\<rparr>"

text \<open>The lambda \<^verbatim>\<open>removeSupplementaryPaths\<close> of \<^verbatim>\<open>loadInfoForOnePrimary\<close> (lines 100-105).\<close>

definition removeSupplementaryPaths :: "path \<Rightarrow> path \<Rightarrow> world \<Rightarrow> world" where
  "removeSupplementaryPaths compiledSourcePath swiftRangesPath w =
     (case fs_remove compiledSourcePath w of
        (ok1, w1) \<Rightarrow>
          let w2 = (if ok1 then w1
                    else errsPrint (''WARNING could not remove: '' @ compiledSourcePath) w1)
          in (case fs_remove swiftRangesPath w2 of
                (ok2, w3) \<Rightarrow>
                  if ok2 then w3
                  else errsPrint (''WARNING could not remove: '' @ swiftRangesPath) w3))"

text \<open>The lambda \<^verbatim>\<open>getModTime\<close> of \<^verbatim>\<open>isFileNewerThan\<close> (lines 307-315).\<close>

definition getModTime :: "path \<Rightarrow> world \<Rightarrow> nat option \<times> world" where
  "getModTime p w =
     (case fs_status p w of
        (Inl statError, w1) \<Rightarrow>
          (None, diagnose (warn_cannot_stat_input (filename p) statError) w1)
      | (Inr t, w1) \<Rightarrow> (Some t, w1))"

text \<open>\<^verbatim>\<open>isFileNewerThan\<close> (lines 304-321).\<close>

definition isFileNewerThan :: "path \<Rightarrow> path \<Rightarrow> world \<Rightarrow> bool option \<times> world" where
  "isFileNewerThan lhs rhs w =
     (case getModTime lhs w of
        (lhsModTime, w1) \<Rightarrow>
          (case getModTime rhs w1 of
             (rhsModTime, w2) \<Rightarrow>
               ((case (lhsModTime, rhsModTime) of
                   (Some l, Some r) \<Rightarrow> Some (l > r)
                 | _ \<Rightarrow> None),
                w2)))"

text \<open>\<^verbatim>\<open>loadChangedRanges\<close> (lines 151-181).\<close>

definition loadChangedRanges ::
  "collaborators \<Rightarrow> path \<Rightarrow> path \<Rightarrow> bool \<Rightarrow> world \<Rightarrow> Ranges option \<times> world" where
  "loadChangedRanges env compiledSourcePath primaryPath showIncrementalBuildDecisions w =
     (case isFileNewerThan compiledSourcePath primaryPath w of
        (None, w1) \<Rightarrow> (None, w1)
      | (Some True, w1) \<Rightarrow> (Some [], w1)
      | (Some False, w1) \<Rightarrow>
          (case fs_getFile compiledSourcePath w1 of
             (Inl ec, w2) \<Rightarrow>
               (None, diagnose (warn_unable_to_load_compiled_swift compiledSourcePath ec) w2)
           | (Inr wasCompiledBefore, w2) \<Rightarrow>
               (case fs_getFile primaryPath w2 of
                  (Inl ec, w3) \<Rightarrow>
                    (None, diagnose (warn_unable_to_load_primary primaryPath ec) w3)
                | (Inr aboutToCompile, w3) \<Rightarrow>
                    (Some (sourceCompare env (getBuffer wasCompiledBefore)
                             (getBuffer aboutToCompile)),
                     recordCall (CallCompare (getBuffer wasCompiledBefore)
                                   (getBuffer aboutToCompile)) w3))))"

text \<open>\<^verbatim>\<open>SwiftRangesFileContents::load\<close> (lines 183-205).\<close>

definition SwiftRangesFileContents_load ::
  "collaborators \<Rightarrow> path \<Rightarrow> MemoryBuffer \<Rightarrow> bool \<Rightarrow> world
     \<Rightarrow> SwiftRangesFileContents option \<times> world" where
  "SwiftRangesFileContents_load env primaryPath swiftRangesBuffer
       showIncrementalBuildDecisions w =
     (if \<not> prefix (header env) (getBuffer swiftRangesBuffer)
      then (None,
            diagnose (warn_bad_swift_ranges_header (getBufferIdentifier swiftRangesBuffer)) w)
      else
        (case yamlRead env (getBuffer swiftRangesBuffer) of
           Inl err \<Rightarrow>
             (None,
              diagnose (warn_bad_swift_ranges_format
                          (getBufferIdentifier swiftRangesBuffer) err) w)
         | Inr contents \<Rightarrow> (Some contents, w)))"

text \<open>\<^verbatim>\<open>loadSwiftRangesFileContents\<close> (lines 137-149).\<close>

definition loadSwiftRangesFileContents ::
  "collaborators \<Rightarrow> path \<Rightarrow> path \<Rightarrow> bool \<Rightarrow> world
     \<Rightarrow> SwiftRangesFileContents option \<times> world" where
  "loadSwiftRangesFileContents env swiftRangesPath primaryPath
       showIncrementalBuildDecisions w =
     (case fs_getFile swiftRangesPath w of
        (Inl ec, w1) \<Rightarrow>
          (None, diagnose (warn_unable_to_load_swift_ranges swiftRangesPath ec) w1)
      | (Inr buffer, w1) \<Rightarrow>
          SwiftRangesFileContents_load env primaryPath buffer
            showIncrementalBuildDecisions w1)"

text \<open>\<^verbatim>\<open>computeNonlocalChangedRanges\<close> (lines 207-212).\<close>

definition computeNonlocalChangedRanges :: "SwiftRangesFileContents \<Rightarrow> Ranges \<Rightarrow> Ranges" where
  "computeNonlocalChangedRanges contents changed =
     findAllOutliers changed (noninlinableFunctionBodies contents)"

text \<open>
  \<^verbatim>\<open>loadInfoForOnePrimary\<close> (lines 95-135). The caller passes a nonempty
  \<open>primaryPath\<close> (the assertion of line 107).
\<close>

definition loadInfoForOnePrimary ::
  "collaborators \<Rightarrow> path \<Rightarrow> path \<Rightarrow> path \<Rightarrow> bool \<Rightarrow> world
     \<Rightarrow> SourceRangeBasedInfo option \<times> world" where
  "loadInfoForOnePrimary env primaryPath compiledSourcePath swiftRangesPath
       showIncrementalBuildDecisions w =
     (case fs_exists primaryPath w of
        (False, w1) \<Rightarrow>
          let w2 = (if showIncrementalBuildDecisions
                    then outsPrint (primaryPath @ '' was removed.'') w1 else w1)
          in (wholeFileChanged, removeSupplementaryPaths compiledSourcePath swiftRangesPath w2)
      | (True, w1) \<Rightarrow>
          (case loadSwiftRangesFileContents env swiftRangesPath primaryPath
                  showIncrementalBuildDecisions w1 of
             (contents, w2) \<Rightarrow>
               (case loadChangedRanges env compiledSourcePath primaryPath
                       showIncrementalBuildDecisions w2 of
                  (changed, w3) \<Rightarrow>
                    (case (contents, changed) of
                       (Some c, Some ch) \<Rightarrow>
                         (Some \<lparr>swiftRangesFileContents = c,
                                changedRanges = ch,
                                nonlocalChangedRanges = computeNonlocalChangedRanges c ch\<rparr>,
                          w3)
                     | _ \<Rightarrow>
                         (None,
                          removeSupplementaryPaths compiledSourcePath swiftRangesPath w3)))))"

text \<open>
  \<^verbatim>\<open>loadAllInfo\<close> (lines 63-93): the loop over the jobs, with the map built so far
  and the world.
\<close>

fun loadAllInfoLoop ::
  "collaborators \<Rightarrow> bool \<Rightarrow> Job list \<Rightarrow> AllInfos \<Rightarrow> world \<Rightarrow> AllInfos \<times> world" where
  "loadAllInfoLoop env showIncrementalBuildDecisions [] allInfos w = (allInfos, w)"
| "loadAllInfoLoop env showIncrementalBuildDecisions (Cmd # jobs) allInfos w =
     (let primaryPath = getFirstSwiftPrimaryInput Cmd in
      if primaryPath = []
      then loadAllInfoLoop env showIncrementalBuildDecisions jobs allInfos w
      else
        (case loadInfoForOnePrimary env primaryPath (compiledSourceOutput Cmd)
                (swiftRangesOutput Cmd) showIncrementalBuildDecisions w of
           (None, w1) \<Rightarrow> loadAllInfoLoop env showIncrementalBuildDecisions jobs allInfos w1
         | (Some info, w1) \<Rightarrow>
             loadAllInfoLoop env showIncrementalBuildDecisions jobs
               (StringMap_insert primaryPath info allInfos) w1))"

definition loadAllInfo ::
  "collaborators \<Rightarrow> Job list \<Rightarrow> bool \<Rightarrow> world \<Rightarrow> AllInfos \<times> world" where
  "loadAllInfo env jobs showIncrementalBuildDecisions w =
     loadAllInfoLoop env showIncrementalBuildDecisions jobs [] w"

text \<open>
  \<^verbatim>\<open>dumpChangedRanges\<close> (lines 341-358). The result is the text written to the error
  stream, or nothing when the assertion of line 352 fails. \<open>printString\<close> is the
  range printer, which is defined elsewhere.
\<close>

definition dumpRangeSet ::
  "(SerializableSourceRange \<Rightarrow> string) \<Rightarrow> string \<Rightarrow> string \<Rightarrow> Ranges \<Rightarrow> string list" where
  "dumpRangeSet printString primaryFilename which ranges =
     [''*** '' @ which @ '' changed ranges in previously-compiled '' @ [CHR 0x27]
        @ primaryFilename @ [CHR 0x27] @ '' ***'' @ [CHR 0x0A]]
     @ map (\<lambda>r. printString r @ [CHR 0x0A]) ranges
     @ [[CHR 0x0A]]"

definition dumpChangedRanges ::
  "(SerializableSourceRange \<Rightarrow> string) \<Rightarrow> string \<Rightarrow> SourceRangeBasedInfo
     \<Rightarrow> string list option" where
  "dumpChangedRanges printString primaryFilename self =
     (if changedRanges self = []
      then (if nonlocalChangedRanges self = []
            then Some (dumpRangeSet printString primaryFilename ''no'' [])
            else None)
      else Some (dumpRangeSet printString primaryFilename ''all'' (changedRanges self)
                 @ dumpRangeSet printString primaryFilename ''nonlocal''
                     (nonlocalChangedRanges self)))"


section \<open>Scheduling\<close>

text \<open>
  The texts handed to the \<^verbatim>\<open>noteBuilding\<close> callback, one constructor per message of
  the source: line 256, line 260, lines 288-289 (with the file name), lines 295-296
  (with the file name and the range that is printed), lines 240-241.
\<close>

datatype buildNote =
    CouldNotObtainRangeInfo
  | ThisFileChanged
  | ChangedNonlocallyNoUnparsedRanges string
  | ChangedRange string SerializableSourceRange
  | ToCreateFilesForNextTime

text \<open>
  \<^verbatim>\<open>wasEveryNonprimaryNonlocalChangeUnparsed\<close> (lines 274-301). The first argument
  is \<^verbatim>\<open>this->swiftRangesFileContents.unparsedRangesByNonPrimary\<close>; the result is the
  returned flag and the notes emitted.
\<close>

fun wasEveryNonprimaryNonlocalChangeUnparsed ::
  "(path \<rightharpoonup> Ranges) \<Rightarrow> string \<Rightarrow> AllInfos \<Rightarrow> bool \<times> buildNote list" where
  "wasEveryNonprimaryNonlocalChangeUnparsed myUnparsedRangesByNonPri primary [] = (True, [])"
| "wasEveryNonprimaryNonlocalChangeUnparsed myUnparsedRangesByNonPri primary
     ((nonPri, nonPriInfo) # rest) =
     (if nonPri = primary \<or> nonlocalChangedRanges nonPriInfo = []
      then wasEveryNonprimaryNonlocalChangeUnparsed myUnparsedRangesByNonPri primary rest
      else
        (case myUnparsedRangesByNonPri nonPri of
           None \<Rightarrow> (False, [ChangedNonlocallyNoUnparsedRanges (filename nonPri)])
         | Some unparsedRanges \<Rightarrow>
             (case findOutlierIfAny (nonlocalChangedRanges nonPriInfo) unparsedRanges of
                Some whatChanged \<Rightarrow> (False, [ChangedRange (filename nonPri) whatChanged])
              | None \<Rightarrow>
                  wasEveryNonprimaryNonlocalChangeUnparsed myUnparsedRangesByNonPri
                    primary rest)))"

text \<open>\<^verbatim>\<open>didPrimaryParseAnyNonlocalNonprimaryChanges\<close> (lines 267-272).\<close>

definition didPrimaryParseAnyNonlocalNonprimaryChanges ::
  "SourceRangeBasedInfo \<Rightarrow> string \<Rightarrow> AllInfos \<Rightarrow> bool \<times> buildNote list" where
  "didPrimaryParseAnyNonlocalNonprimaryChanges self primary allInfos =
     (case wasEveryNonprimaryNonlocalChangeUnparsed
             (unparsedRangesByNonPrimary (swiftRangesFileContents self)) primary allInfos of
        (b, why) \<Rightarrow> (\<not> b, why))"

text \<open>\<^verbatim>\<open>shouldScheduleCompileJob\<close> (lines 247-265).\<close>

definition shouldScheduleCompileJob :: "AllInfos \<Rightarrow> Job \<Rightarrow> bool \<times> buildNote list" where
  "shouldScheduleCompileJob allInfos Cmd =
     (let primary = getFirstSwiftPrimaryInput Cmd in
      if primary = [] then (True, [])
      else
        (case map_of allInfos primary of
           None \<Rightarrow> (True, [CouldNotObtainRangeInfo])
         | Some info \<Rightarrow>
             if changedRanges info \<noteq> [] then (True, [ThisFileChanged])
             else didPrimaryParseAnyNonlocalNonprimaryChanges info (filename primary) allInfos))"

text \<open>
  The outcome of \<^verbatim>\<open>neededCompileJobsForRangeBasedIncrementalCompilation\<close>: the
  returned pair (\<open>neededJobs\<close>, \<open>jobsLackingSupplementaryOutputs\<close>) and the calls made
  to the \<^verbatim>\<open>schedule\<close> and \<^verbatim>\<open>noteBuilding\<close> callbacks, in order. The \<^verbatim>\<open>defer\<close>
  callback is never called.
\<close>

record Needed =
  neededJobs :: "Job set"
  jobsLackingSupplementaryOutputs :: "Job list"
  scheduleCalls :: "Job list"
  noteBuildingCalls :: "(Job \<times> buildNote) list"

text \<open>The body of the loop over the jobs (lines 228-242).\<close>

definition neededStep :: "AllInfos \<Rightarrow> Needed \<Rightarrow> Job \<Rightarrow> Needed" where
  "neededStep allInfos acc Cmd =
     (let primary = getFirstSwiftPrimaryInput Cmd in
      if primary = [] then acc\<lparr>scheduleCalls := scheduleCalls acc @ [Cmd]\<rparr>
      else
        (case shouldScheduleCompileJob allInfos Cmd of
           (shouldSchedule, why) \<Rightarrow>
             let acc1 = acc\<lparr>noteBuildingCalls := noteBuildingCalls acc @ map (Pair Cmd) why\<rparr>;
                 acc2 = (if shouldSchedule
                         then acc1\<lparr>neededJobs := insert Cmd (neededJobs acc1)\<rparr> else acc1)
             in if map_of allInfos primary = None
                then acc2\<lparr>jobsLackingSupplementaryOutputs :=
                            jobsLackingSupplementaryOutputs acc2 @ [Cmd],
                          noteBuildingCalls :=
                            noteBuildingCalls acc2 @ [(Cmd, ToCreateFilesForNextTime)]\<rparr>
                else acc2))"

text \<open>\<^verbatim>\<open>neededCompileJobsForRangeBasedIncrementalCompilation\<close> (lines 217-245).\<close>

definition neededCompileJobsForRangeBasedIncrementalCompilation ::
  "AllInfos \<Rightarrow> Job list \<Rightarrow> Needed" where
  "neededCompileJobsForRangeBasedIncrementalCompilation allInfos jobs =
     foldl (neededStep allInfos)
       \<lparr>neededJobs = {}, jobsLackingSupplementaryOutputs = [],
        scheduleCalls = [], noteBuildingCalls = []\<rparr> jobs"


section \<open>Example inputs\<close>

text \<open>
  Two compile jobs in a source directory, a compile job whose primary is a bare file
  name, and a job that compiles nothing.
\<close>

definition exampleLinkJob :: Job where
  "exampleLinkJob =
     \<lparr>getFirstSwiftPrimaryInput = [], compiledSourceOutput = [], swiftRangesOutput = []\<rparr>"

definition exampleJobA :: Job where
  "exampleJobA =
     \<lparr>getFirstSwiftPrimaryInput = ''src/a.swift'', compiledSourceOutput = ''bld/a.src'',
      swiftRangesOutput = ''bld/a.rng''\<rparr>"

definition exampleJobB :: Job where
  "exampleJobB =
     \<lparr>getFirstSwiftPrimaryInput = ''src/b.swift'', compiledSourceOutput = ''bld/b.src'',
      swiftRangesOutput = ''bld/b.rng''\<rparr>"

definition exampleJobBareA :: Job where
  "exampleJobBareA =
     \<lparr>getFirstSwiftPrimaryInput = ''a.swift'', compiledSourceOutput = ''a.src'',
      swiftRangesOutput = ''a.rng''\<rparr>"

text \<open>The state of a unit that did not change, and of one with a change outside any body.\<close>

definition exampleUnchanged :: SourceRangeBasedInfo where
  "exampleUnchanged =
     \<lparr>swiftRangesFileContents = emptySwiftRangesFileContents,
      changedRanges = [], nonlocalChangedRanges = []\<rparr>"

definition exampleChanged :: SourceRangeBasedInfo where
  "exampleChanged =
     \<lparr>swiftRangesFileContents = emptySwiftRangesFileContents,
      changedRanges = [SourceRange (5, 0) (5, 10)],
      nonlocalChangedRanges = [SourceRange (5, 0) (5, 10)]\<rparr>"

text \<open>
  A short header, a reader that accepts the header alone, and a comparator that reports
  one range when the texts differ.
\<close>

definition exampleEnv :: collaborators where
  "exampleEnv =
     \<lparr>header = ''#R'',
      yamlRead = (\<lambda>s. if s = ''#R'' then Inr emptySwiftRangesFileContents
                      else Inl ''malformed''),
      sourceCompare = (\<lambda>a b. if a = b then [] else [SourceRange (5, 0) (5, 10)])\<rparr>"

text \<open>
  A file system where \<^verbatim>\<open>src/a.swift\<close> is older than its saved copy, and
  \<^verbatim>\<open>src/b.swift\<close> and \<^verbatim>\<open>a.swift\<close> are newer than their saved copies and
  differ from them. Removing \<^verbatim>\<open>bld/a.rng\<close> fails.
\<close>

definition exampleWorld :: world where
  "exampleWorld =
     \<lparr>files = [''src/a.swift'' \<mapsto> \<lparr>lastModificationTime = Inr 1, fileBuffer = Inr ''x''\<rparr>,
               ''bld/a.src'' \<mapsto> \<lparr>lastModificationTime = Inr 2, fileBuffer = Inr ''x''\<rparr>,
               ''bld/a.rng'' \<mapsto> \<lparr>lastModificationTime = Inr 2, fileBuffer = Inr ''#R''\<rparr>,
               ''src/b.swift'' \<mapsto> \<lparr>lastModificationTime = Inr 3, fileBuffer = Inr ''z''\<rparr>,
               ''bld/b.src'' \<mapsto> \<lparr>lastModificationTime = Inr 2, fileBuffer = Inr ''y''\<rparr>,
               ''bld/b.rng'' \<mapsto> \<lparr>lastModificationTime = Inr 2, fileBuffer = Inr ''#R''\<rparr>,
               ''a.swift'' \<mapsto> \<lparr>lastModificationTime = Inr 3, fileBuffer = Inr ''z''\<rparr>,
               ''a.src'' \<mapsto> \<lparr>lastModificationTime = Inr 2, fileBuffer = Inr ''y''\<rparr>,
               ''a.rng'' \<mapsto> \<lparr>lastModificationTime = Inr 2, fileBuffer = Inr ''#R''\<rparr>],
      removeFails = (\<lambda>p. p = ''bld/a.rng''),
      diags = [], errs = [], outs = [], calls = []\<rparr>"


section \<open>Outliers\<close>

lemma findAllOutliers_subset: "set (findAllOutliers c r) \<subseteq> set c"
  by (simp add: findAllOutliers_def)

lemma findAllOutliers_Nil: "findAllOutliers [] r = []"
  by (simp add: findAllOutliers_def)

lemma findAllOutliers_no_reference: "findAllOutliers c [] = c"
  by (simp add: findAllOutliers_def)

lemma findOutlierIfAny_None_iff:
  "findOutlierIfAny c r = None \<longleftrightarrow> (\<forall>x\<in>set c. \<exists>s\<in>set r. contains s x)"
  by (auto simp: findOutlierIfAny_def find_None_iff list_ex_iff)

lemma findOutlierIfAny_Some:
  "findOutlierIfAny c r = Some x \<Longrightarrow> x \<in> set c \<and> \<not> (\<exists>s\<in>set r. contains s x)"
  by (auto simp: findOutlierIfAny_def find_Some_iff list_ex_iff)

text \<open>The two containment examples of section 8 of the specification.\<close>

lemma findAllOutliers_contained_example:
  "findAllOutliers [SourceRange (2, 0) (2, 5)] [SourceRange (1, 0) (10, 0)] = []"
  by (simp add: findAllOutliers_def)

lemma findAllOutliers_outside_example:
  "findAllOutliers [SourceRange (2, 0) (2, 5)] [SourceRange (3, 0) (10, 0)] =
     [SourceRange (2, 0) (2, 5)]"
  by (simp add: findAllOutliers_def)


section \<open>The scheduling decision\<close>

text \<open>
  The scan over the other units returns true exactly when every entry is skipped or
  has all of its non-local changes inside what this unit left unparsed.
\<close>

lemma wasEvery_iff:
  "fst (wasEveryNonprimaryNonlocalChangeUnparsed my primary infos) \<longleftrightarrow>
     (\<forall>(nonPri, nonPriInfo) \<in> set infos.
        nonPri = primary \<or> nonlocalChangedRanges nonPriInfo = [] \<or>
        (\<exists>u. my nonPri = Some u \<and> findOutlierIfAny (nonlocalChangedRanges nonPriInfo) u = None))"
  by (induction my primary infos rule: wasEveryNonprimaryNonlocalChangeUnparsed.induct)
     (auto split: option.splits)

lemma didPrimaryParse_fst:
  "fst (didPrimaryParseAnyNonlocalNonprimaryChanges self primary allInfos) =
     (\<not> fst (wasEveryNonprimaryNonlocalChangeUnparsed
               (unparsedRangesByNonPrimary (swiftRangesFileContents self)) primary allInfos))"
  by (simp add: didPrimaryParseAnyNonlocalNonprimaryChanges_def split: prod.splits)

lemma shouldSchedule_fst:
  "fst (shouldScheduleCompileJob allInfos Cmd) =
     (getFirstSwiftPrimaryInput Cmd = [] \<or>
      (case map_of allInfos (getFirstSwiftPrimaryInput Cmd) of
         None \<Rightarrow> True
       | Some info \<Rightarrow>
           changedRanges info \<noteq> [] \<or>
           fst (didPrimaryParseAnyNonlocalNonprimaryChanges info
                  (filename (getFirstSwiftPrimaryInput Cmd)) allInfos)))"
  by (simp add: shouldScheduleCompileJob_def Let_def split: option.splits)

text \<open>What one pass of the loop over the jobs does to each output.\<close>

lemma neededStep_neededJobs:
  "neededJobs (neededStep allInfos acc Cmd) =
     (if getFirstSwiftPrimaryInput Cmd \<noteq> [] \<and> fst (shouldScheduleCompileJob allInfos Cmd)
      then insert Cmd (neededJobs acc) else neededJobs acc)"
  by (simp add: neededStep_def Let_def split: prod.splits)

lemma neededStep_lacking:
  "jobsLackingSupplementaryOutputs (neededStep allInfos acc Cmd) =
     (if getFirstSwiftPrimaryInput Cmd \<noteq> [] \<and> map_of allInfos (getFirstSwiftPrimaryInput Cmd) = None
      then jobsLackingSupplementaryOutputs acc @ [Cmd]
      else jobsLackingSupplementaryOutputs acc)"
  by (simp add: neededStep_def Let_def split: prod.splits)

lemma neededStep_scheduleCalls:
  "scheduleCalls (neededStep allInfos acc Cmd) =
     (if getFirstSwiftPrimaryInput Cmd = [] then scheduleCalls acc @ [Cmd]
      else scheduleCalls acc)"
  by (simp add: neededStep_def Let_def split: prod.splits)

lemma foldl_neededJobs:
  "neededJobs (foldl (neededStep allInfos) acc jobs) =
     neededJobs acc \<union>
     {Cmd \<in> set jobs. getFirstSwiftPrimaryInput Cmd \<noteq> [] \<and>
                       fst (shouldScheduleCompileJob allInfos Cmd)}"
  by (induction jobs arbitrary: acc) (auto simp: neededStep_neededJobs)

lemma foldl_lacking:
  "jobsLackingSupplementaryOutputs (foldl (neededStep allInfos) acc jobs) =
     jobsLackingSupplementaryOutputs acc @
     filter (\<lambda>Cmd. getFirstSwiftPrimaryInput Cmd \<noteq> [] \<and>
                   map_of allInfos (getFirstSwiftPrimaryInput Cmd) = None) jobs"
  by (induction jobs arbitrary: acc) (simp_all add: neededStep_lacking)

lemma foldl_scheduleCalls:
  "scheduleCalls (foldl (neededStep allInfos) acc jobs) =
     scheduleCalls acc @ filter (\<lambda>Cmd. getFirstSwiftPrimaryInput Cmd = []) jobs"
  by (induction jobs arbitrary: acc) (simp_all add: neededStep_scheduleCalls)

lemma needed_neededJobs:
  "neededJobs (neededCompileJobsForRangeBasedIncrementalCompilation allInfos jobs) =
     {Cmd \<in> set jobs. getFirstSwiftPrimaryInput Cmd \<noteq> [] \<and>
                       fst (shouldScheduleCompileJob allInfos Cmd)}"
  by (simp add: neededCompileJobsForRangeBasedIncrementalCompilation_def foldl_neededJobs)

lemma needed_lacking:
  "jobsLackingSupplementaryOutputs
     (neededCompileJobsForRangeBasedIncrementalCompilation allInfos jobs) =
     filter (\<lambda>Cmd. getFirstSwiftPrimaryInput Cmd \<noteq> [] \<and>
                   map_of allInfos (getFirstSwiftPrimaryInput Cmd) = None) jobs"
  by (simp add: neededCompileJobsForRangeBasedIncrementalCompilation_def foldl_lacking)

lemma needed_scheduleCalls:
  "scheduleCalls (neededCompileJobsForRangeBasedIncrementalCompilation allInfos jobs) =
     filter (\<lambda>Cmd. getFirstSwiftPrimaryInput Cmd = []) jobs"
  by (simp add: neededCompileJobsForRangeBasedIncrementalCompilation_def foldl_scheduleCalls)


subsection \<open>Jobs that compile nothing\<close>

text \<open>
  Claim C1, as stated: a job that names no primary is in the returned set of needed
  jobs. It is not: with an empty map and the one job \<open>exampleLinkJob\<close>, the returned
  set does not hold the job.
\<close>

theorem noncompile_job_not_in_neededJobs:
  "getFirstSwiftPrimaryInput exampleLinkJob = []
   \<and> exampleLinkJob \<in> set [exampleLinkJob]
   \<and> exampleLinkJob \<notin> neededJobs
        (neededCompileJobsForRangeBasedIncrementalCompilation [] [exampleLinkJob])"
  by (simp add: neededCompileJobsForRangeBasedIncrementalCompilation_def neededStep_def
        exampleLinkJob_def)

text \<open>
  Claim C1, amended: for every job list and state map, every job that names no primary
  is handed to the \<^verbatim>\<open>schedule\<close> callback, and is in neither returned collection.
\<close>

theorem noncompile_job_is_scheduled_by_callback:
  assumes "Cmd \<in> set jobs" and "getFirstSwiftPrimaryInput Cmd = []"
  shows "Cmd \<in> set (scheduleCalls
                     (neededCompileJobsForRangeBasedIncrementalCompilation allInfos jobs))
       \<and> Cmd \<notin> neededJobs (neededCompileJobsForRangeBasedIncrementalCompilation allInfos jobs)
       \<and> Cmd \<notin> set (jobsLackingSupplementaryOutputs
                      (neededCompileJobsForRangeBasedIncrementalCompilation allInfos jobs))"
  using assms by (simp add: needed_neededJobs needed_lacking needed_scheduleCalls)

text \<open>Claim C1, amended, at the job list \<open>[exampleJobA, exampleLinkJob]\<close>.\<close>

theorem noncompile_job_is_scheduled_by_callback_witness:
  "exampleLinkJob \<in> set [exampleJobA, exampleLinkJob]
   \<and> getFirstSwiftPrimaryInput exampleLinkJob = []
   \<and> exampleLinkJob \<in> set (scheduleCalls
        (neededCompileJobsForRangeBasedIncrementalCompilation [] [exampleJobA, exampleLinkJob]))
   \<and> exampleLinkJob \<notin> neededJobs
        (neededCompileJobsForRangeBasedIncrementalCompilation [] [exampleJobA, exampleLinkJob])"
  using noncompile_job_is_scheduled_by_callback
          [of exampleLinkJob "[exampleJobA, exampleLinkJob]" "[]"]
  by (simp add: exampleLinkJob_def)


subsection \<open>A unit whose own source changed\<close>

text \<open>
  Claim C3: a compile job whose primary has an entry with nonempty \<open>changedRanges\<close> is
  in the set of needed jobs, whatever the other entries are; the only note is "this file
  changed", so the scan over the other units is not run.
\<close>

theorem own_change_forces_job:
  assumes "Cmd \<in> set jobs" and "getFirstSwiftPrimaryInput Cmd \<noteq> []"
    and "map_of allInfos (getFirstSwiftPrimaryInput Cmd) = Some info"
    and "changedRanges info \<noteq> []"
  shows "Cmd \<in> neededJobs (neededCompileJobsForRangeBasedIncrementalCompilation allInfos jobs)
       \<and> shouldScheduleCompileJob allInfos Cmd = (True, [ThisFileChanged])"
  using assms by (simp add: needed_neededJobs shouldScheduleCompileJob_def)

text \<open>Claim C3 at \<open>exampleJobA\<close> with a changed entry.\<close>

theorem own_change_forces_job_witness:
  "map_of [(''src/a.swift'', exampleChanged)] (getFirstSwiftPrimaryInput exampleJobA) =
     Some exampleChanged
   \<and> changedRanges exampleChanged \<noteq> []
   \<and> exampleJobA \<in> neededJobs
        (neededCompileJobsForRangeBasedIncrementalCompilation
           [(''src/a.swift'', exampleChanged)] [exampleJobA])"
  using own_change_forces_job
          [of exampleJobA "[exampleJobA]" "[(''src/a.swift'', exampleChanged)]" exampleChanged]
  by (simp add: exampleJobA_def exampleChanged_def)


subsection \<open>A unit with no entry\<close>

text \<open>
  Claim C4: a compile job whose primary has no entry in the map is in both outputs: the
  set of needed jobs and the list of jobs lacking supplementary outputs.
\<close>

theorem missing_entry_forces_job:
  assumes "Cmd \<in> set jobs" and "getFirstSwiftPrimaryInput Cmd \<noteq> []"
    and "map_of allInfos (getFirstSwiftPrimaryInput Cmd) = None"
  shows "Cmd \<in> neededJobs (neededCompileJobsForRangeBasedIncrementalCompilation allInfos jobs)
       \<and> Cmd \<in> set (jobsLackingSupplementaryOutputs
                      (neededCompileJobsForRangeBasedIncrementalCompilation allInfos jobs))"
  using assms by (simp add: needed_neededJobs needed_lacking shouldScheduleCompileJob_def)

text \<open>Claim C4 at \<open>exampleJobA\<close> with a map that only knows another unit.\<close>

theorem missing_entry_forces_job_witness:
  "map_of [(''src/b.swift'', exampleChanged)] (getFirstSwiftPrimaryInput exampleJobA) = None
   \<and> exampleJobA \<in> neededJobs
        (neededCompileJobsForRangeBasedIncrementalCompilation
           [(''src/b.swift'', exampleChanged)] [exampleJobA])
   \<and> exampleJobA \<in> set (jobsLackingSupplementaryOutputs
        (neededCompileJobsForRangeBasedIncrementalCompilation
           [(''src/b.swift'', exampleChanged)] [exampleJobA]))"
  using missing_entry_forces_job
          [of exampleJobA "[exampleJobA]" "[(''src/b.swift'', exampleChanged)]"]
  by (simp add: exampleJobA_def)


subsection \<open>The dependency rule\<close>

text \<open>
  What the code decides for a unit with an entry and no change of its own: the job is
  needed exactly when some entry, whose key differs from the bare file name of the
  primary and whose non-local changes are not empty, is either unknown to this unit's
  record or has a non-local change outside every range this unit left unparsed.
\<close>

lemma shouldSchedule_dependency_rule:
  assumes "getFirstSwiftPrimaryInput Cmd \<noteq> []"
    and "map_of allInfos (getFirstSwiftPrimaryInput Cmd) = Some me"
    and "changedRanges me = []"
  shows "fst (shouldScheduleCompileJob allInfos Cmd) \<longleftrightarrow>
     (\<exists>(D, dInfo) \<in> set allInfos.
        D \<noteq> filename (getFirstSwiftPrimaryInput Cmd) \<and> nonlocalChangedRanges dInfo \<noteq> [] \<and>
        (case unparsedRangesByNonPrimary (swiftRangesFileContents me) D of
           None \<Rightarrow> True
         | Some unread \<Rightarrow>
             \<exists>r \<in> set (nonlocalChangedRanges dInfo). \<not> (\<exists>s \<in> set unread. contains s r)))"
  using assms
  by (fastforce simp: shouldSchedule_fst didPrimaryParse_fst wasEvery_iff
        findOutlierIfAny_None_iff split: option.splits)

text \<open>
  The two scenarios of section 8 of the specification: unit A did not change, unit B
  has the non-local change (5,0)-(5,10). When A left (1,0)-(20,0) of B unparsed, A is
  not scheduled; when it left only (1,0)-(4,0) unparsed, A is scheduled and the note
  names B and the range.
\<close>

lemma scenario_change_unread:
  "shouldScheduleCompileJob
     [(''src/a.swift'',
       \<lparr>swiftRangesFileContents =
          \<lparr>noninlinableFunctionBodies = [],
           unparsedRangesByNonPrimary = [''src/b.swift'' \<mapsto> [SourceRange (1, 0) (20, 0)]]\<rparr>,
        changedRanges = [], nonlocalChangedRanges = []\<rparr>),
      (''src/b.swift'', exampleChanged)]
     exampleJobA = (False, [])"
  by (simp add: shouldScheduleCompileJob_def didPrimaryParseAnyNonlocalNonprimaryChanges_def
        findOutlierIfAny_def filename_def exampleJobA_def exampleChanged_def)

lemma scenario_change_read:
  "shouldScheduleCompileJob
     [(''src/a.swift'',
       \<lparr>swiftRangesFileContents =
          \<lparr>noninlinableFunctionBodies = [],
           unparsedRangesByNonPrimary = [''src/b.swift'' \<mapsto> [SourceRange (1, 0) (4, 0)]]\<rparr>,
        changedRanges = [], nonlocalChangedRanges = []\<rparr>),
      (''src/b.swift'', exampleChanged)]
     exampleJobA = (True, [ChangedRange ''b.swift'' (SourceRange (5, 0) (5, 10))])"
  by (simp add: shouldScheduleCompileJob_def didPrimaryParseAnyNonlocalNonprimaryChanges_def
        findOutlierIfAny_def filename_def exampleJobA_def exampleChanged_def)

text \<open>
  Claim C2 says that a unit with no change of its own is needed whenever some other
  unit of the map changed non-locally and this unit has no record for it. The code
  compares each key of the map with the bare file name of the primary (lines 264 and
  283), so an entry whose key is that file name is passed over. Here the map holds
  \<^verbatim>\<open>a.swift\<close>, changed non-locally, and \<^verbatim>\<open>src/a.swift\<close>, unchanged and with
  no record for \<^verbatim>\<open>a.swift\<close>: the job for \<^verbatim>\<open>src/a.swift\<close> is not among the needed
  jobs. With the changed unit under the key \<^verbatim>\<open>src/b.swift\<close> instead, it is.
  The map is the one \<open>loadAllInfo\<close> builds in the example world.
\<close>

theorem dependency_with_primarys_file_name_is_skipped:
  "fst (loadAllInfo exampleEnv [exampleJobBareA, exampleJobA] False exampleWorld) =
     [(''a.swift'', exampleChanged), (''src/a.swift'', exampleUnchanged)]
   \<and> map_of [(''a.swift'', exampleChanged), (''src/a.swift'', exampleUnchanged)]
      (getFirstSwiftPrimaryInput exampleJobA) = Some exampleUnchanged
   \<and> changedRanges exampleUnchanged = []
   \<and> map_of [(''a.swift'', exampleChanged), (''src/a.swift'', exampleUnchanged)] ''a.swift'' =
        Some exampleChanged
   \<and> ''a.swift'' \<noteq> getFirstSwiftPrimaryInput exampleJobA
   \<and> nonlocalChangedRanges exampleChanged \<noteq> []
   \<and> unparsedRangesByNonPrimary (swiftRangesFileContents exampleUnchanged) ''a.swift'' = None
   \<and> exampleJobA \<notin> neededJobs
        (neededCompileJobsForRangeBasedIncrementalCompilation
           [(''a.swift'', exampleChanged), (''src/a.swift'', exampleUnchanged)]
           [exampleJobBareA, exampleJobA])
   \<and> exampleJobA \<in> neededJobs
        (neededCompileJobsForRangeBasedIncrementalCompilation
           [(''src/b.swift'', exampleChanged), (''src/a.swift'', exampleUnchanged)]
           [exampleJobB, exampleJobA])"
  by (simp add: needed_neededJobs shouldScheduleCompileJob_def
        didPrimaryParseAnyNonlocalNonprimaryChanges_def filename_def
        exampleJobA_def exampleJobB_def exampleJobBareA_def exampleUnchanged_def
        exampleChanged_def emptySwiftRangesFileContents_def
        loadAllInfo_def StringMap_insert_def exampleWorld_def exampleEnv_def
        loadInfoForOnePrimary_def loadSwiftRangesFileContents_def
        SwiftRangesFileContents_load_def loadChangedRanges_def isFileNewerThan_def
        getModTime_def removeSupplementaryPaths_def computeNonlocalChangedRanges_def
        findAllOutliers_def recordCall_def diagnose_def fs_exists_def fs_status_def
        fs_getFile_def fs_remove_def Let_def)


subsection \<open>Iteration order\<close>

lemma shouldSchedule_perm:
  assumes "distinct (map fst a)" and "mset a = mset b"
  shows "fst (shouldScheduleCompileJob a Cmd) = fst (shouldScheduleCompileJob b Cmd)"
proof -
  have s: "set a = set b" using assms(2) by (rule mset_eq_setD)
  have "mset (map fst a) = mset (map fst b)" using assms(2) by (metis mset_map)
  then have "distinct (map fst b)" using assms(1) by (metis mset_eq_imp_distinct_iff)
  then have m: "map_of a = map_of b" using assms(1) s by (simp add: map_of_inject_set)
  show ?thesis
    by (simp add: shouldSchedule_fst didPrimaryParse_fst wasEvery_iff m s split: option.splits)
qed

text \<open>
  Claim C9: the decision is a function of its inputs, and visiting the entries of the
  map in another order (a permutation of the list of entries, whose keys are distinct)
  gives the same set of needed jobs and the same list of jobs lacking supplementary
  outputs.
\<close>

theorem decision_independent_of_iteration_order:
  assumes "distinct (map fst a)" and "mset a = mset b"
  shows "neededJobs (neededCompileJobsForRangeBasedIncrementalCompilation a jobs) =
         neededJobs (neededCompileJobsForRangeBasedIncrementalCompilation b jobs)
       \<and> jobsLackingSupplementaryOutputs
           (neededCompileJobsForRangeBasedIncrementalCompilation a jobs) =
         jobsLackingSupplementaryOutputs
           (neededCompileJobsForRangeBasedIncrementalCompilation b jobs)"
proof -
  have s: "set a = set b" using assms(2) by (rule mset_eq_setD)
  have "mset (map fst a) = mset (map fst b)" using assms(2) by (metis mset_map)
  then have "distinct (map fst b)" using assms(1) by (metis mset_eq_imp_distinct_iff)
  then have m: "map_of a = map_of b" using assms(1) s by (simp add: map_of_inject_set)
  have "\<And>Cmd. fst (shouldScheduleCompileJob a Cmd) = fst (shouldScheduleCompileJob b Cmd)"
    using assms by (rule shouldSchedule_perm)
  then show ?thesis by (simp add: needed_neededJobs needed_lacking m)
qed

text \<open>Claim C9 at a map of two entries, visited in both orders.\<close>

theorem decision_independent_of_iteration_order_witness:
  "distinct (map fst [(''src/a.swift'', exampleUnchanged), (''src/b.swift'', exampleChanged)])
   \<and> neededJobs (neededCompileJobsForRangeBasedIncrementalCompilation
        [(''src/a.swift'', exampleUnchanged), (''src/b.swift'', exampleChanged)]
        [exampleJobA, exampleJobB]) =
      neededJobs (neededCompileJobsForRangeBasedIncrementalCompilation
        [(''src/b.swift'', exampleChanged), (''src/a.swift'', exampleUnchanged)]
        [exampleJobA, exampleJobB])
   \<and> jobsLackingSupplementaryOutputs (neededCompileJobsForRangeBasedIncrementalCompilation
        [(''src/a.swift'', exampleUnchanged), (''src/b.swift'', exampleChanged)]
        [exampleJobA, exampleJobB]) =
      jobsLackingSupplementaryOutputs (neededCompileJobsForRangeBasedIncrementalCompilation
        [(''src/b.swift'', exampleChanged), (''src/a.swift'', exampleUnchanged)]
        [exampleJobA, exampleJobB])"
  using decision_independent_of_iteration_order
          [of "[(''src/a.swift'', exampleUnchanged), (''src/b.swift'', exampleChanged)]"
              "[(''src/b.swift'', exampleChanged), (''src/a.swift'', exampleUnchanged)]"
              "[exampleJobA, exampleJobB]"]
  by simp

text \<open>
  Entries under the key \<open>p\<close> that have no non-local change do not matter to the scan.
\<close>

lemma wasEvery_without_own_entry:
  assumes "\<forall>(k, i) \<in> set allInfos. k = p \<longrightarrow> nonlocalChangedRanges i = []"
  shows "fst (wasEveryNonprimaryNonlocalChangeUnparsed my primary allInfos) =
         fst (wasEveryNonprimaryNonlocalChangeUnparsed my primary
                (filter (\<lambda>(k, i). k \<noteq> p) allInfos))"
  using assms by (auto simp: wasEvery_iff)


section \<open>Properties of loading\<close>

lemmas world_ops = recordCall_def diagnose_def errsPrint_def outsPrint_def
  fs_exists_def fs_status_def fs_getFile_def fs_remove_def

subsection \<open>Removing the supplementary files\<close>

lemma removeSupplementaryPaths_calls:
  "calls (removeSupplementaryPaths c r w) = calls w @ [CallRemove c, CallRemove r]"
  by (simp add: removeSupplementaryPaths_def world_ops Let_def)

lemma removeSupplementaryPaths_diags:
  "diags (removeSupplementaryPaths c r w) = diags w"
  by (simp add: removeSupplementaryPaths_def world_ops Let_def)

lemma removeSupplementaryPaths_errs:
  "errs (removeSupplementaryPaths c r w) =
     errs w @ (if removeFails w c then [''WARNING could not remove: '' @ c] else [])
            @ (if removeFails w r then [''WARNING could not remove: '' @ r] else [])"
  by (simp add: removeSupplementaryPaths_def world_ops Let_def)

subsection \<open>Modification times and the two buffers\<close>

lemma isFileNewerThan_fst:
  "fst (isFileNewerThan lhs rhs w) =
     (case (fst (fs_status lhs w), fst (fs_status rhs w)) of
        (Inr l, Inr r) \<Rightarrow> Some (l > r) | _ \<Rightarrow> None)"
  by (simp add: isFileNewerThan_def getModTime_def world_ops
           split: prod.splits sum.splits option.splits)

lemma isFileNewerThan_calls:
  "calls (snd (isFileNewerThan lhs rhs w)) = calls w @ [CallStatus lhs, CallStatus rhs]"
  by (simp add: isFileNewerThan_def getModTime_def world_ops
           split: prod.splits sum.splits option.splits)

lemma isFileNewerThan_None_if:
  assumes "fst (fs_status c w) = Inl e \<or> fst (fs_status p w) = Inl e"
  shows "fst (isFileNewerThan c p w) = None"
  using assms by (auto simp: isFileNewerThan_fst split: sum.splits)

lemma loadChangedRanges_newer:
  assumes "fst (fs_status c w) = Inr t1" and "fst (fs_status p w) = Inr t2" and "t1 > t2"
  shows "loadChangedRanges env c p s w =
           (Some [], w\<lparr>calls := calls w @ [CallStatus c, CallStatus p]\<rparr>)"
  using assms
  by (simp add: loadChangedRanges_def isFileNewerThan_def getModTime_def world_ops
           split: prod.splits sum.splits option.splits)

lemma loadChangedRanges_nostat:
  assumes "fst (fs_status c w) = Inl e \<or> fst (fs_status p w) = Inl e"
  shows "fst (loadChangedRanges env c p s w) = None"
  using assms isFileNewerThan_fst [of c p w]
  by (auto simp: loadChangedRanges_def split: prod.splits sum.splits option.splits bool.splits)

lemma loadChangedRanges_no_read:
  assumes "\<not> (\<exists>t1 t2. fst (fs_status c w) = Inr t1 \<and> fst (fs_status p w) = Inr t2 \<and> t1 \<le> t2)"
  shows "calls (snd (loadChangedRanges env c p s w)) = calls w @ [CallStatus c, CallStatus p]"
proof -
  have "fst (isFileNewerThan c p w) \<noteq> Some False"
    using assms by (auto simp: isFileNewerThan_fst split: sum.splits)
  then show ?thesis
    using isFileNewerThan_calls [of c p w]
    by (auto simp: loadChangedRanges_def split: prod.splits option.splits bool.splits)
qed

lemma loadChangedRanges_diff:
  assumes "fst (fs_status c w) = Inr t1" and "fst (fs_status p w) = Inr t2" and "t1 \<le> t2"
    and "fst (fs_getFile c w) = Inr a" and "fst (fs_getFile p w) = Inr b"
  shows "loadChangedRanges env c p s w =
           (Some (sourceCompare env (getBuffer a) (getBuffer b)),
            w\<lparr>calls := calls w @ [CallStatus c, CallStatus p, CallGetFile c, CallGetFile p,
                                   CallCompare (getBuffer a) (getBuffer b)]\<rparr>)"
  using assms
  by (simp add: loadChangedRanges_def isFileNewerThan_def getModTime_def world_ops
           split: prod.splits sum.splits option.splits)

text \<open>What is loaded depends on the files only, not on what was logged before.\<close>

lemma loadChangedRanges_fst_cong:
  "files w1 = files w \<Longrightarrow>
   fst (loadChangedRanges env c p s w1) = fst (loadChangedRanges env c p s w)"
  by (simp add: loadChangedRanges_def isFileNewerThan_def getModTime_def world_ops
           split: prod.splits sum.splits option.splits bool.splits)

subsection \<open>The side-car record\<close>

lemma SwiftRangesFileContents_load_fst:
  "(fst (SwiftRangesFileContents_load env p buf s w) = Some c) =
     (prefix (header env) (getBuffer buf) \<and> yamlRead env (getBuffer buf) = Inr c)"
  by (auto simp: SwiftRangesFileContents_load_def split: sum.splits)

lemma SwiftRangesFileContents_load_files:
  "files (snd (SwiftRangesFileContents_load env p buf s w)) = files w"
  by (simp add: SwiftRangesFileContents_load_def world_ops split: sum.splits)

lemma loadSwiftRangesFileContents_files:
  "files (snd (loadSwiftRangesFileContents env r p s w)) = files w"
  by (simp add: loadSwiftRangesFileContents_def world_ops SwiftRangesFileContents_load_files
           split: prod.splits sum.splits option.splits)

lemma loadSwiftRangesFileContents_fst:
  assumes "fst (fs_getFile r w) = Inr buf"
  shows "fst (loadSwiftRangesFileContents env r p s w) =
         fst (SwiftRangesFileContents_load env p buf s w)"
  using assms
  by (auto simp: loadSwiftRangesFileContents_def fs_getFile_def
        SwiftRangesFileContents_load_def split: sum.splits option.splits)

lemma loadSwiftRangesFileContents_fst_cong:
  "files w1 = files w \<Longrightarrow>
   fst (loadSwiftRangesFileContents env r p s w1) = fst (loadSwiftRangesFileContents env r p s w)"
  by (auto simp: loadSwiftRangesFileContents_def fs_getFile_def
        SwiftRangesFileContents_load_def split: sum.splits option.splits)

subsection \<open>The state of one unit\<close>

text \<open>For a primary that exists, the result in terms of the two loads.\<close>

lemma loadInfoForOnePrimary_fst:
  assumes "files w p \<noteq> None"
  shows "fst (loadInfoForOnePrimary env p c r s w) =
     (case fst (loadSwiftRangesFileContents env r p s w) of
        None \<Rightarrow> None
      | Some cont \<Rightarrow>
          (case fst (loadChangedRanges env c p s w) of
             None \<Rightarrow> None
           | Some ch \<Rightarrow>
               Some \<lparr>swiftRangesFileContents = cont, changedRanges = ch,
                     nonlocalChangedRanges = computeNonlocalChangedRanges cont ch\<rparr>))"
proof -
  let ?w1 = "recordCall (CallExists p) w"
  let ?w2 = "snd (loadSwiftRangesFileContents env r p s ?w1)"
  have f1: "files ?w1 = files w" by (simp add: recordCall_def)
  have f2: "files ?w2 = files w" by (simp add: loadSwiftRangesFileContents_files f1)
  have a: "fst (loadSwiftRangesFileContents env r p s ?w1) =
           fst (loadSwiftRangesFileContents env r p s w)"
    using f1 by (rule loadSwiftRangesFileContents_fst_cong)
  have b: "fst (loadChangedRanges env c p s ?w2) = fst (loadChangedRanges env c p s w)"
    using f2 by (rule loadChangedRanges_fst_cong)
  have "fst (loadInfoForOnePrimary env p c r s w) =
     (case fst (loadSwiftRangesFileContents env r p s ?w1) of
        None \<Rightarrow> None
      | Some cont \<Rightarrow>
          (case fst (loadChangedRanges env c p s ?w2) of
             None \<Rightarrow> None
           | Some ch \<Rightarrow>
               Some \<lparr>swiftRangesFileContents = cont, changedRanges = ch,
                     nonlocalChangedRanges = computeNonlocalChangedRanges cont ch\<rparr>))"
    using assms
    by (auto simp: loadInfoForOnePrimary_def fs_exists_def
             split: prod.splits option.splits bool.splits)
  then show ?thesis by (simp only: a b)
qed

text \<open>Whenever no state is returned, the two removals were the last calls made.\<close>

lemma loadInfoForOnePrimary_None_removes:
  assumes "fst (loadInfoForOnePrimary env p c r s w) = None"
  shows "suffix [CallRemove c, CallRemove r] (calls (snd (loadInfoForOnePrimary env p c r s w)))"
  using assms
  by (auto simp: loadInfoForOnePrimary_def fs_exists_def wholeFileChanged_def Let_def
        removeSupplementaryPaths_calls suffix_def
        split: prod.splits option.splits bool.splits)

lemma loadInfoForOnePrimary_nonlocal:
  assumes "fst (loadInfoForOnePrimary env p c r s w) = Some info"
  shows "nonlocalChangedRanges info =
           findAllOutliers (changedRanges info)
             (noninlinableFunctionBodies (swiftRangesFileContents info))"
  using assms
  by (auto simp: loadInfoForOnePrimary_def fs_exists_def wholeFileChanged_def Let_def
        computeNonlocalChangedRanges_def emptySwiftRangesFileContents_def
        findAllOutliers_no_reference
        split: prod.splits option.splits if_splits bool.splits)

lemma loadInfoForOnePrimary_unchanged_local:
  assumes "fst (loadInfoForOnePrimary env p c r s w) = Some info"
    and "changedRanges info = []"
  shows "nonlocalChangedRanges info = []"
  using loadInfoForOnePrimary_nonlocal [OF assms(1)] assms(2)
  by (simp add: findAllOutliers_Nil)

subsection \<open>The map of all units\<close>

lemma StringMap_insert_distinct:
  "distinct (map fst m) \<Longrightarrow> distinct (map fst (StringMap_insert k v m))"
  by (auto simp: StringMap_insert_def map_of_eq_None_iff)

lemma StringMap_insert_set:
  "set (StringMap_insert k v m) \<subseteq> insert (k, v) (set m)"
  by (auto simp: StringMap_insert_def)

text \<open>A job whose unit yields no state adds nothing to the map.\<close>

lemma loadAllInfoLoop_omits:
  assumes "fst (loadInfoForOnePrimary env p c r s w) = None"
  shows "\<forall>Cmd jobs allInfos.
           getFirstSwiftPrimaryInput Cmd = p \<and> p \<noteq> []
           \<and> compiledSourceOutput Cmd = c \<and> swiftRangesOutput Cmd = r \<longrightarrow>
           loadAllInfoLoop env s (Cmd # jobs) allInfos w =
           loadAllInfoLoop env s jobs allInfos (snd (loadInfoForOnePrimary env p c r s w))"
  using assms by (auto simp: Let_def split: prod.splits option.splits)

text \<open>
  The keys of the map are distinct, and every state in it that has no change has no
  non-local change.
\<close>

lemma loadAllInfoLoop_invariant:
  assumes "distinct (map fst acc)"
    and "\<forall>(k, i) \<in> set acc. changedRanges i = [] \<longrightarrow> nonlocalChangedRanges i = []"
  shows "distinct (map fst (fst (loadAllInfoLoop env s jobs acc w)))
       \<and> (\<forall>(k, i) \<in> set (fst (loadAllInfoLoop env s jobs acc w)).
            changedRanges i = [] \<longrightarrow> nonlocalChangedRanges i = [])"
  using assms
proof (induction jobs arbitrary: acc w)
  case Nil
  then show ?case by simp
next
  case (Cons Cmd jobs)
  show ?case
  proof (cases "getFirstSwiftPrimaryInput Cmd = []")
    case True
    then show ?thesis using Cons.IH [OF Cons.prems] by simp
  next
    case False
    obtain r w1 where l: "loadInfoForOnePrimary env (getFirstSwiftPrimaryInput Cmd)
        (compiledSourceOutput Cmd) (swiftRangesOutput Cmd) s w = (r, w1)"
      by (cases "loadInfoForOnePrimary env (getFirstSwiftPrimaryInput Cmd)
        (compiledSourceOutput Cmd) (swiftRangesOutput Cmd) s w")
    show ?thesis
    proof (cases r)
      case None
      then show ?thesis using False l Cons.IH [OF Cons.prems] by simp
    next
      case (Some info)
      have d: "distinct (map fst (StringMap_insert (getFirstSwiftPrimaryInput Cmd) info acc))"
        using Cons.prems(1) by (rule StringMap_insert_distinct)
      have "fst (loadInfoForOnePrimary env (getFirstSwiftPrimaryInput Cmd)
        (compiledSourceOutput Cmd) (swiftRangesOutput Cmd) s w) = Some info"
        using l Some by simp
      then have "changedRanges info = [] \<longrightarrow> nonlocalChangedRanges info = []"
        using loadInfoForOnePrimary_unchanged_local by blast
      then have i: "\<forall>(k, i) \<in> set (StringMap_insert (getFirstSwiftPrimaryInput Cmd) info acc).
                 changedRanges i = [] \<longrightarrow> nonlocalChangedRanges i = []"
        using Cons.prems(2) StringMap_insert_set [of "getFirstSwiftPrimaryInput Cmd" info acc]
        by auto
      show ?thesis using False l Some Cons.IH [OF d i] by simp
    qed
  qed
qed

lemma loadAllInfo_invariant:
  assumes "fst (loadAllInfo env jobs s w) = allInfos"
  shows "distinct (map fst allInfos)"
    and "\<forall>(k, i) \<in> set allInfos. changedRanges i = [] \<longrightarrow> nonlocalChangedRanges i = []"
  using loadAllInfoLoop_invariant [of "[]" env s jobs w] assms
  by (auto simp: loadAllInfo_def)


section \<open>Claims about loading\<close>

lemmas load_defs = loadInfoForOnePrimary_def loadSwiftRangesFileContents_def
  SwiftRangesFileContents_load_def loadChangedRanges_def isFileNewerThan_def getModTime_def
  removeSupplementaryPaths_def computeNonlocalChangedRanges_def wholeFileChanged_def
  findAllOutliers_def world_ops Let_def

subsection \<open>A primary that was removed\<close>

text \<open>
  Claim C5: when the current source of a unit does not exist, the state returned is
  usable, with \<open>changedRanges\<close> and \<open>nonlocalChangedRanges\<close> both the whole-file
  sentinel set. The only calls made are the existence test and the removal of the
  saved copy and of the side-car file: nothing is read, no file status is asked for,
  nothing is compared. A removal that fails only adds a warning to the error stream;
  no diagnostic is emitted.
\<close>

theorem removed_primary_gives_wholeFileChanged:
  assumes "files w primaryPath = None"
  shows "fst (loadInfoForOnePrimary env primaryPath compiledSourcePath swiftRangesPath
                showIncrementalBuildDecisions w) =
           Some \<lparr>swiftRangesFileContents = emptySwiftRangesFileContents,
                 changedRanges = RangesForWholeFile,
                 nonlocalChangedRanges = RangesForWholeFile\<rparr>
       \<and> calls (snd (loadInfoForOnePrimary env primaryPath compiledSourcePath swiftRangesPath
                       showIncrementalBuildDecisions w)) =
           calls w @ [CallExists primaryPath, CallRemove compiledSourcePath,
                      CallRemove swiftRangesPath]
       \<and> diags (snd (loadInfoForOnePrimary env primaryPath compiledSourcePath swiftRangesPath
                       showIncrementalBuildDecisions w)) = diags w
       \<and> errs (snd (loadInfoForOnePrimary env primaryPath compiledSourcePath swiftRangesPath
                      showIncrementalBuildDecisions w)) =
           errs w
           @ (if removeFails w compiledSourcePath
              then [''WARNING could not remove: '' @ compiledSourcePath] else [])
           @ (if removeFails w swiftRangesPath
              then [''WARNING could not remove: '' @ swiftRangesPath] else [])"
  using assms
  by (simp add: loadInfoForOnePrimary_def fs_exists_def wholeFileChanged_def Let_def
        removeSupplementaryPaths_calls removeSupplementaryPaths_diags
        removeSupplementaryPaths_errs recordCall_def outsPrint_def)

text \<open>
  Claim C5 in the example world without \<^verbatim>\<open>src/a.swift\<close>; the removal of
  \<^verbatim>\<open>bld/a.rng\<close> fails there and is logged.
\<close>

theorem removed_primary_gives_wholeFileChanged_witness:
  "files (exampleWorld\<lparr>files := (files exampleWorld)(''src/a.swift'' := None)\<rparr>)
     ''src/a.swift'' = None
   \<and> fst (loadInfoForOnePrimary exampleEnv ''src/a.swift'' ''bld/a.src'' ''bld/a.rng'' True
            (exampleWorld\<lparr>files := (files exampleWorld)(''src/a.swift'' := None)\<rparr>)) =
       Some \<lparr>swiftRangesFileContents = emptySwiftRangesFileContents,
             changedRanges = [WholeFile], nonlocalChangedRanges = [WholeFile]\<rparr>
   \<and> calls (snd (loadInfoForOnePrimary exampleEnv ''src/a.swift'' ''bld/a.src'' ''bld/a.rng''
                   True
                   (exampleWorld\<lparr>files := (files exampleWorld)(''src/a.swift'' := None)\<rparr>))) =
       [CallExists ''src/a.swift'', CallRemove ''bld/a.src'', CallRemove ''bld/a.rng'']
   \<and> errs (snd (loadInfoForOnePrimary exampleEnv ''src/a.swift'' ''bld/a.src'' ''bld/a.rng''
                  True
                  (exampleWorld\<lparr>files := (files exampleWorld)(''src/a.swift'' := None)\<rparr>))) =
       [''WARNING could not remove: bld/a.rng'']"
  using removed_primary_gives_wholeFileChanged
          [where w = "exampleWorld\<lparr>files := (files exampleWorld)(''src/a.swift'' := None)\<rparr>"
             and primaryPath = "''src/a.swift''" and env = exampleEnv
             and compiledSourcePath = "''bld/a.src''" and swiftRangesPath = "''bld/a.rng''"
             and showIncrementalBuildDecisions = True]
  by (simp add: exampleWorld_def RangesForWholeFile_def)


subsection \<open>The freshness shortcut\<close>

text \<open>
  Claim C6, for a unit whose current source exists. (1) If the saved copy is strictly
  newer, \<open>loadChangedRanges\<close> returns the empty list after the two status calls alone,
  and the unit's state, when its record loads, has no changed range. (2) If the
  modification time of either file cannot be obtained, there is no result, the unit
  gets no state, the supplementary files are removed, and the job adds nothing to the
  map. (3) Unless both times are there and the source is newer or equal, nothing but
  the two status calls is made. (4) When the source is newer or equal and both buffers
  can be read, both are read and the comparator is called on them.
\<close>

theorem freshness_shortcut:
  assumes "files w primaryPath \<noteq> None"
  shows "(\<forall>t1 t2. fst (fs_status compiledSourcePath w) = Inr t1
                 \<and> fst (fs_status primaryPath w) = Inr t2 \<and> t2 < t1 \<longrightarrow>
            loadChangedRanges env compiledSourcePath primaryPath s w =
              (Some [], w\<lparr>calls := calls w @ [CallStatus compiledSourcePath,
                                              CallStatus primaryPath]\<rparr>)
          \<and> (\<forall>cont. fst (loadSwiftRangesFileContents env swiftRangesPath primaryPath s w) =
                       Some cont \<longrightarrow>
                fst (loadInfoForOnePrimary env primaryPath compiledSourcePath swiftRangesPath
                       s w) =
                  Some \<lparr>swiftRangesFileContents = cont, changedRanges = [],
                        nonlocalChangedRanges = []\<rparr>))
       \<and> (\<forall>e. fst (fs_status compiledSourcePath w) = Inl e
               \<or> fst (fs_status primaryPath w) = Inl e \<longrightarrow>
            fst (loadChangedRanges env compiledSourcePath primaryPath s w) = None
          \<and> fst (loadInfoForOnePrimary env primaryPath compiledSourcePath swiftRangesPath
                    s w) = None
          \<and> suffix [CallRemove compiledSourcePath, CallRemove swiftRangesPath]
               (calls (snd (loadInfoForOnePrimary env primaryPath compiledSourcePath
                              swiftRangesPath s w)))
          \<and> (\<forall>Cmd jobs allInfos.
                getFirstSwiftPrimaryInput Cmd = primaryPath \<and> primaryPath \<noteq> []
                \<and> compiledSourceOutput Cmd = compiledSourcePath
                \<and> swiftRangesOutput Cmd = swiftRangesPath \<longrightarrow>
                loadAllInfoLoop env s (Cmd # jobs) allInfos w =
                loadAllInfoLoop env s jobs allInfos
                  (snd (loadInfoForOnePrimary env primaryPath compiledSourcePath
                          swiftRangesPath s w))))
       \<and> (\<not> (\<exists>t1 t2. fst (fs_status compiledSourcePath w) = Inr t1
                    \<and> fst (fs_status primaryPath w) = Inr t2 \<and> t1 \<le> t2) \<longrightarrow>
            calls (snd (loadChangedRanges env compiledSourcePath primaryPath s w)) =
              calls w @ [CallStatus compiledSourcePath, CallStatus primaryPath])
       \<and> (\<forall>t1 t2 a b. fst (fs_status compiledSourcePath w) = Inr t1
                 \<and> fst (fs_status primaryPath w) = Inr t2 \<and> t1 \<le> t2
                 \<and> fst (fs_getFile compiledSourcePath w) = Inr a
                 \<and> fst (fs_getFile primaryPath w) = Inr b \<longrightarrow>
            loadChangedRanges env compiledSourcePath primaryPath s w =
              (Some (sourceCompare env (getBuffer a) (getBuffer b)),
               w\<lparr>calls := calls w @ [CallStatus compiledSourcePath, CallStatus primaryPath,
                                      CallGetFile compiledSourcePath, CallGetFile primaryPath,
                                      CallCompare (getBuffer a) (getBuffer b)]\<rparr>))"
proof -
  have 1: "loadChangedRanges env compiledSourcePath primaryPath s w =
              (Some [], w\<lparr>calls := calls w @ [CallStatus compiledSourcePath,
                                              CallStatus primaryPath]\<rparr>)
          \<and> (\<forall>cont. fst (loadSwiftRangesFileContents env swiftRangesPath primaryPath s w) =
                       Some cont \<longrightarrow>
                fst (loadInfoForOnePrimary env primaryPath compiledSourcePath swiftRangesPath
                       s w) =
                  Some \<lparr>swiftRangesFileContents = cont, changedRanges = [],
                        nonlocalChangedRanges = []\<rparr>)"
    if h: "fst (fs_status compiledSourcePath w) = Inr t1
                 \<and> fst (fs_status primaryPath w) = Inr t2 \<and> t2 < t1" for t1 t2
  proof -
    have l: "loadChangedRanges env compiledSourcePath primaryPath s w =
              (Some [], w\<lparr>calls := calls w @ [CallStatus compiledSourcePath,
                                              CallStatus primaryPath]\<rparr>)"
      using h by (simp add: loadChangedRanges_newer)
    then have "fst (loadChangedRanges env compiledSourcePath primaryPath s w) = Some []"
      by simp
    then show ?thesis
      using l assms
      by (simp add: loadInfoForOnePrimary_fst computeNonlocalChangedRanges_def
            findAllOutliers_Nil)
  qed
  have 2: "fst (loadChangedRanges env compiledSourcePath primaryPath s w) = None
          \<and> fst (loadInfoForOnePrimary env primaryPath compiledSourcePath swiftRangesPath
                    s w) = None
          \<and> suffix [CallRemove compiledSourcePath, CallRemove swiftRangesPath]
               (calls (snd (loadInfoForOnePrimary env primaryPath compiledSourcePath
                              swiftRangesPath s w)))
          \<and> (\<forall>Cmd jobs allInfos.
                getFirstSwiftPrimaryInput Cmd = primaryPath \<and> primaryPath \<noteq> []
                \<and> compiledSourceOutput Cmd = compiledSourcePath
                \<and> swiftRangesOutput Cmd = swiftRangesPath \<longrightarrow>
                loadAllInfoLoop env s (Cmd # jobs) allInfos w =
                loadAllInfoLoop env s jobs allInfos
                  (snd (loadInfoForOnePrimary env primaryPath compiledSourcePath
                          swiftRangesPath s w)))"
    if h: "fst (fs_status compiledSourcePath w) = Inl e
               \<or> fst (fs_status primaryPath w) = Inl e" for e
  proof -
    have n: "fst (loadChangedRanges env compiledSourcePath primaryPath s w) = None"
      using h by (rule loadChangedRanges_nostat)
    have i: "fst (loadInfoForOnePrimary env primaryPath compiledSourcePath swiftRangesPath
                    s w) = None"
      using assms n by (simp add: loadInfoForOnePrimary_fst split: option.splits)
    show ?thesis
      using n i loadInfoForOnePrimary_None_removes [OF i] loadAllInfoLoop_omits [OF i]
      by blast
  qed
  have 3: "calls (snd (loadChangedRanges env compiledSourcePath primaryPath s w)) =
              calls w @ [CallStatus compiledSourcePath, CallStatus primaryPath]"
    if "\<not> (\<exists>t1 t2. fst (fs_status compiledSourcePath w) = Inr t1
                    \<and> fst (fs_status primaryPath w) = Inr t2 \<and> t1 \<le> t2)"
    using that by (rule loadChangedRanges_no_read)
  have 4: "loadChangedRanges env compiledSourcePath primaryPath s w =
              (Some (sourceCompare env (getBuffer a) (getBuffer b)),
               w\<lparr>calls := calls w @ [CallStatus compiledSourcePath, CallStatus primaryPath,
                                      CallGetFile compiledSourcePath, CallGetFile primaryPath,
                                      CallCompare (getBuffer a) (getBuffer b)]\<rparr>)"
    if "fst (fs_status compiledSourcePath w) = Inr t1
                 \<and> fst (fs_status primaryPath w) = Inr t2 \<and> t1 \<le> t2
                 \<and> fst (fs_getFile compiledSourcePath w) = Inr a
                 \<and> fst (fs_getFile primaryPath w) = Inr b" for t1 t2 a b
    using that by (simp add: loadChangedRanges_diff)
  from 1 2 3 4 show ?thesis by blast
qed

text \<open>
  Claim C6 in the example world: the saved copy of \<^verbatim>\<open>src/a.swift\<close> is newer, so
  the unit's state is the unchanged one; without the saved copy there is no state and
  nothing is read; the saved copy of \<^verbatim>\<open>src/b.swift\<close> is older and is compared.
\<close>

theorem freshness_shortcut_witness:
  "loadChangedRanges exampleEnv ''bld/a.src'' ''src/a.swift'' False exampleWorld =
     (Some [], exampleWorld\<lparr>calls := calls exampleWorld
                @ [CallStatus ''bld/a.src'', CallStatus ''src/a.swift'']\<rparr>)
   \<and> fst (loadInfoForOnePrimary exampleEnv ''src/a.swift'' ''bld/a.src'' ''bld/a.rng'' False
            exampleWorld) = Some exampleUnchanged
   \<and> fst (loadInfoForOnePrimary exampleEnv ''src/a.swift'' ''bld/a.src'' ''bld/a.rng'' False
            (exampleWorld\<lparr>files := (files exampleWorld)(''bld/a.src'' := None)\<rparr>)) = None
   \<and> calls (snd (loadChangedRanges exampleEnv ''bld/a.src'' ''src/a.swift'' False
                   (exampleWorld\<lparr>files := (files exampleWorld)(''bld/a.src'' := None)\<rparr>))) =
       [CallStatus ''bld/a.src'', CallStatus ''src/a.swift'']
   \<and> loadChangedRanges exampleEnv ''bld/b.src'' ''src/b.swift'' False exampleWorld =
     (Some [SourceRange (5, 0) (5, 10)],
      exampleWorld\<lparr>calls := calls exampleWorld
         @ [CallStatus ''bld/b.src'', CallStatus ''src/b.swift'',
            CallGetFile ''bld/b.src'', CallGetFile ''src/b.swift'', CallCompare ''y'' ''z'']\<rparr>)"
proof -
  have a: "files exampleWorld ''src/a.swift'' \<noteq> None"
    and b: "files exampleWorld ''src/b.swift'' \<noteq> None"
    and c: "files (exampleWorld\<lparr>files := (files exampleWorld)(''bld/a.src'' := None)\<rparr>)
              ''src/a.swift'' \<noteq> None"
    by (simp_all add: exampleWorld_def)
  have 1: "loadChangedRanges exampleEnv ''bld/a.src'' ''src/a.swift'' False exampleWorld =
     (Some [], exampleWorld\<lparr>calls := calls exampleWorld
                @ [CallStatus ''bld/a.src'', CallStatus ''src/a.swift'']\<rparr>)"
    using freshness_shortcut [OF a, where compiledSourcePath = "''bld/a.src''"
            and env = exampleEnv and s = False and swiftRangesPath = "''bld/a.rng''"]
    by (simp add: fs_status_def exampleWorld_def)
  have 2: "fst (loadInfoForOnePrimary exampleEnv ''src/a.swift'' ''bld/a.src'' ''bld/a.rng'' False
            (exampleWorld\<lparr>files := (files exampleWorld)(''bld/a.src'' := None)\<rparr>)) = None"
    using freshness_shortcut [OF c, where compiledSourcePath = "''bld/a.src''"
            and env = exampleEnv and s = False and swiftRangesPath = "''bld/a.rng''"]
    by (simp add: fs_status_def exampleWorld_def)
  have 3: "loadChangedRanges exampleEnv ''bld/b.src'' ''src/b.swift'' False exampleWorld =
     (Some [SourceRange (5, 0) (5, 10)],
      exampleWorld\<lparr>calls := calls exampleWorld
         @ [CallStatus ''bld/b.src'', CallStatus ''src/b.swift'',
            CallGetFile ''bld/b.src'', CallGetFile ''src/b.swift'', CallCompare ''y'' ''z'']\<rparr>)"
    using freshness_shortcut [OF b, where compiledSourcePath = "''bld/b.src''"
            and env = exampleEnv and s = False and swiftRangesPath = "''bld/b.rng''"]
    by (simp add: fs_status_def fs_getFile_def exampleWorld_def exampleEnv_def)
  have 4: "fst (loadInfoForOnePrimary exampleEnv ''src/a.swift'' ''bld/a.src'' ''bld/a.rng'' False
            exampleWorld) = Some exampleUnchanged"
    using freshness_shortcut [OF a, where compiledSourcePath = "''bld/a.src''"
            and env = exampleEnv and s = False and swiftRangesPath = "''bld/a.rng''"]
    by (simp add: fs_status_def fs_getFile_def exampleWorld_def exampleEnv_def
          exampleUnchanged_def loadSwiftRangesFileContents_def SwiftRangesFileContents_load_def
          recordCall_def)
  have 5: "calls (snd (loadChangedRanges exampleEnv ''bld/a.src'' ''src/a.swift'' False
                   (exampleWorld\<lparr>files := (files exampleWorld)(''bld/a.src'' := None)\<rparr>))) =
       [CallStatus ''bld/a.src'', CallStatus ''src/a.swift'']"
    using freshness_shortcut [OF c, where compiledSourcePath = "''bld/a.src''"
            and env = exampleEnv and s = False and swiftRangesPath = "''bld/a.rng''"]
    by (simp add: fs_status_def exampleWorld_def)
  from 1 2 3 4 5 show ?thesis by blast
qed


subsection \<open>Non-local changes\<close>

text \<open>
  Claim C7: in every state that \<open>loadInfoForOnePrimary\<close> constructs,
  \<open>nonlocalChangedRanges\<close> is \<open>findAllOutliers\<close> of \<open>changedRanges\<close> against the
  local-scope ranges of the record. So every non-local change is one of the changed
  ranges, a unit with no changed range has no non-local change, and the assertion in
  \<open>dumpChangedRanges\<close> does not fail.
\<close>

theorem nonlocal_changes_are_outliers_of_changes:
  assumes "fst (loadInfoForOnePrimary env primaryPath compiledSourcePath swiftRangesPath
                  showIncrementalBuildDecisions w) = Some info"
  shows "nonlocalChangedRanges info =
           findAllOutliers (changedRanges info)
             (noninlinableFunctionBodies (swiftRangesFileContents info))
       \<and> set (nonlocalChangedRanges info) \<subseteq> set (changedRanges info)
       \<and> (changedRanges info = [] \<longrightarrow> nonlocalChangedRanges info = [])
       \<and> dumpChangedRanges printString primaryFilename info \<noteq> None"
proof -
  have eq: "nonlocalChangedRanges info =
           findAllOutliers (changedRanges info)
             (noninlinableFunctionBodies (swiftRangesFileContents info))"
    using assms by (rule loadInfoForOnePrimary_nonlocal)
  have sub: "set (nonlocalChangedRanges info) \<subseteq> set (changedRanges info)"
    by (subst eq) (rule findAllOutliers_subset)
  have emp: "changedRanges info = [] \<longrightarrow> nonlocalChangedRanges info = []"
    using sub by auto
  have "dumpChangedRanges printString primaryFilename info \<noteq> None"
    using emp by (simp add: dumpChangedRanges_def)
  with eq sub emp show ?thesis by blast
qed

text \<open>Claim C7 at the state loaded for \<^verbatim>\<open>src/b.swift\<close> in the example world.\<close>

theorem nonlocal_changes_are_outliers_of_changes_witness:
  "fst (loadInfoForOnePrimary exampleEnv ''src/b.swift'' ''bld/b.src'' ''bld/b.rng'' False
          exampleWorld) = Some exampleChanged
   \<and> nonlocalChangedRanges exampleChanged =
       findAllOutliers (changedRanges exampleChanged)
         (noninlinableFunctionBodies (swiftRangesFileContents exampleChanged))
   \<and> set (nonlocalChangedRanges exampleChanged) \<subseteq> set (changedRanges exampleChanged)
   \<and> dumpChangedRanges (\<lambda>r. ''range'') ''b.swift'' exampleChanged \<noteq> None"
proof -
  have l: "fst (loadInfoForOnePrimary exampleEnv ''src/b.swift'' ''bld/b.src'' ''bld/b.rng'' False
          exampleWorld) = Some exampleChanged"
    by (simp add: load_defs exampleWorld_def exampleEnv_def exampleChanged_def
          emptySwiftRangesFileContents_def)
  from nonlocal_changes_are_outliers_of_changes
         [OF l, where printString = "\<lambda>r. ''range''" and primaryFilename = "''b.swift''"] l
  show ?thesis by blast
qed


subsection \<open>Parsing the side-car record\<close>

text \<open>
  Claim C8: \<open>SwiftRangesFileContents_load\<close> returns a record exactly when the buffer
  begins with the header and the YAML reader decodes it, and then it is the decoded
  record. Without the header the bad-header warning is emitted, and with a body that
  does not decode the bad-format warning. When the side-car file of an existing primary
  was read and its parse fails, the unit gets no state, the last two calls are the
  removals of the saved copy and of the side-car file, and the job adds nothing to the
  map.
\<close>

theorem swift_ranges_load_iff:
  "(\<forall>c. (fst (SwiftRangesFileContents_load env primaryPath buf s w) = Some c) =
          (prefix (header env) (getBuffer buf) \<and> yamlRead env (getBuffer buf) = Inr c))
   \<and> (\<not> prefix (header env) (getBuffer buf) \<longrightarrow>
        diags (snd (SwiftRangesFileContents_load env primaryPath buf s w)) =
          diags w @ [warn_bad_swift_ranges_header (getBufferIdentifier buf)])
   \<and> (\<forall>e. prefix (header env) (getBuffer buf) \<and> yamlRead env (getBuffer buf) = Inl e \<longrightarrow>
        diags (snd (SwiftRangesFileContents_load env primaryPath buf s w)) =
          diags w @ [warn_bad_swift_ranges_format (getBufferIdentifier buf) e])
   \<and> (files w primaryPath \<noteq> None \<and> fst (fs_getFile swiftRangesPath w) = Inr buf
      \<and> fst (SwiftRangesFileContents_load env primaryPath buf s w) = None \<longrightarrow>
        fst (loadInfoForOnePrimary env primaryPath compiledSourcePath swiftRangesPath s w) = None
      \<and> suffix [CallRemove compiledSourcePath, CallRemove swiftRangesPath]
           (calls (snd (loadInfoForOnePrimary env primaryPath compiledSourcePath
                          swiftRangesPath s w)))
      \<and> (\<forall>Cmd jobs allInfos.
            getFirstSwiftPrimaryInput Cmd = primaryPath \<and> primaryPath \<noteq> []
            \<and> compiledSourceOutput Cmd = compiledSourcePath
            \<and> swiftRangesOutput Cmd = swiftRangesPath \<longrightarrow>
            loadAllInfoLoop env s (Cmd # jobs) allInfos w =
            loadAllInfoLoop env s jobs allInfos
              (snd (loadInfoForOnePrimary env primaryPath compiledSourcePath
                      swiftRangesPath s w))))"
proof -
  have 1: "\<forall>c. (fst (SwiftRangesFileContents_load env primaryPath buf s w) = Some c) =
          (prefix (header env) (getBuffer buf) \<and> yamlRead env (getBuffer buf) = Inr c)"
    by (simp add: SwiftRangesFileContents_load_fst)
  have 2: "\<not> prefix (header env) (getBuffer buf) \<longrightarrow>
        diags (snd (SwiftRangesFileContents_load env primaryPath buf s w)) =
          diags w @ [warn_bad_swift_ranges_header (getBufferIdentifier buf)]"
    by (simp add: SwiftRangesFileContents_load_def diagnose_def)
  have 3: "\<forall>e. prefix (header env) (getBuffer buf) \<and> yamlRead env (getBuffer buf) = Inl e \<longrightarrow>
        diags (snd (SwiftRangesFileContents_load env primaryPath buf s w)) =
          diags w @ [warn_bad_swift_ranges_format (getBufferIdentifier buf) e]"
    by (simp add: SwiftRangesFileContents_load_def diagnose_def)
  have 4: "fst (loadInfoForOnePrimary env primaryPath compiledSourcePath swiftRangesPath s w) = None
      \<and> suffix [CallRemove compiledSourcePath, CallRemove swiftRangesPath]
           (calls (snd (loadInfoForOnePrimary env primaryPath compiledSourcePath
                          swiftRangesPath s w)))
      \<and> (\<forall>Cmd jobs allInfos.
            getFirstSwiftPrimaryInput Cmd = primaryPath \<and> primaryPath \<noteq> []
            \<and> compiledSourceOutput Cmd = compiledSourcePath
            \<and> swiftRangesOutput Cmd = swiftRangesPath \<longrightarrow>
            loadAllInfoLoop env s (Cmd # jobs) allInfos w =
            loadAllInfoLoop env s jobs allInfos
              (snd (loadInfoForOnePrimary env primaryPath compiledSourcePath
                      swiftRangesPath s w)))"
    if h: "files w primaryPath \<noteq> None \<and> fst (fs_getFile swiftRangesPath w) = Inr buf
      \<and> fst (SwiftRangesFileContents_load env primaryPath buf s w) = None"
  proof -
    have n: "fst (loadSwiftRangesFileContents env swiftRangesPath primaryPath s w) = None"
      using h loadSwiftRangesFileContents_fst [of swiftRangesPath w buf env primaryPath s]
      by simp
    have i: "fst (loadInfoForOnePrimary env primaryPath compiledSourcePath swiftRangesPath s w)
             = None"
      using h n by (simp add: loadInfoForOnePrimary_fst)
    show ?thesis
      using i loadInfoForOnePrimary_None_removes [OF i] loadAllInfoLoop_omits [OF i]
      by blast
  qed
  from 1 2 3 4 show ?thesis by blast
qed

text \<open>
  Claim C8 on three buffers (the header alone, no header, a header and a body that does
  not decode), and on a unit whose side-car path holds a file without the header.
\<close>

theorem swift_ranges_load_iff_witness:
  "fst (SwiftRangesFileContents_load exampleEnv ''src/a.swift''
          \<lparr>getBufferIdentifier = ''bld/a.rng'', getBuffer = ''#R''\<rparr> False exampleWorld) =
     Some emptySwiftRangesFileContents
   \<and> diags (snd (SwiftRangesFileContents_load exampleEnv ''src/a.swift''
          \<lparr>getBufferIdentifier = ''bld/a.rng'', getBuffer = ''junk''\<rparr> False exampleWorld)) =
     [warn_bad_swift_ranges_header ''bld/a.rng'']
   \<and> diags (snd (SwiftRangesFileContents_load exampleEnv ''src/a.swift''
          \<lparr>getBufferIdentifier = ''bld/a.rng'', getBuffer = ''#R junk''\<rparr> False exampleWorld)) =
     [warn_bad_swift_ranges_format ''bld/a.rng'' ''malformed'']
   \<and> fst (loadInfoForOnePrimary exampleEnv ''src/b.swift'' ''bld/b.src'' ''bld/a.src'' False
            exampleWorld) = None
   \<and> suffix [CallRemove ''bld/b.src'', CallRemove ''bld/a.src'']
        (calls (snd (loadInfoForOnePrimary exampleEnv ''src/b.swift'' ''bld/b.src'' ''bld/a.src''
                       False exampleWorld)))"
proof -
  have 1: "fst (SwiftRangesFileContents_load exampleEnv ''src/a.swift''
          \<lparr>getBufferIdentifier = ''bld/a.rng'', getBuffer = ''#R''\<rparr> False exampleWorld) =
     Some emptySwiftRangesFileContents"
    using swift_ranges_load_iff [where env = exampleEnv and primaryPath = "''src/a.swift''"
            and buf = "\<lparr>getBufferIdentifier = ''bld/a.rng'', getBuffer = ''#R''\<rparr>"
            and s = False and w = exampleWorld]
    by (simp add: exampleEnv_def)
  have 2: "diags (snd (SwiftRangesFileContents_load exampleEnv ''src/a.swift''
          \<lparr>getBufferIdentifier = ''bld/a.rng'', getBuffer = ''junk''\<rparr> False exampleWorld)) =
     [warn_bad_swift_ranges_header ''bld/a.rng'']"
    using swift_ranges_load_iff [where env = exampleEnv and primaryPath = "''src/a.swift''"
            and buf = "\<lparr>getBufferIdentifier = ''bld/a.rng'', getBuffer = ''junk''\<rparr>"
            and s = False and w = exampleWorld]
    by (simp add: exampleEnv_def exampleWorld_def)
  have 3: "diags (snd (SwiftRangesFileContents_load exampleEnv ''src/a.swift''
          \<lparr>getBufferIdentifier = ''bld/a.rng'', getBuffer = ''#R junk''\<rparr> False exampleWorld)) =
     [warn_bad_swift_ranges_format ''bld/a.rng'' ''malformed'']"
    using swift_ranges_load_iff [where env = exampleEnv and primaryPath = "''src/a.swift''"
            and buf = "\<lparr>getBufferIdentifier = ''bld/a.rng'', getBuffer = ''#R junk''\<rparr>"
            and s = False and w = exampleWorld]
    by (simp add: exampleEnv_def exampleWorld_def)
  have 4: "fst (loadInfoForOnePrimary exampleEnv ''src/b.swift'' ''bld/b.src'' ''bld/a.src'' False
            exampleWorld) = None
   \<and> suffix [CallRemove ''bld/b.src'', CallRemove ''bld/a.src'']
        (calls (snd (loadInfoForOnePrimary exampleEnv ''src/b.swift'' ''bld/b.src'' ''bld/a.src''
                       False exampleWorld)))"
    using swift_ranges_load_iff [where env = exampleEnv and primaryPath = "''src/b.swift''"
            and buf = "\<lparr>getBufferIdentifier = ''bld/a.src'', getBuffer = ''x''\<rparr>"
            and s = False and w = exampleWorld and swiftRangesPath = "''bld/a.src''"
            and compiledSourcePath = "''bld/b.src''"]
    by (simp add: exampleEnv_def exampleWorld_def fs_getFile_def SwiftRangesFileContents_load_def)
  from 1 2 3 4 show ?thesis by blast
qed


subsection \<open>A unit's own entry in the scan\<close>

text \<open>
  Claim C10: take the map that \<open>loadAllInfo\<close> builds and a compile job whose primary
  has an entry with no changed range. The decision for the job is the result of the
  scan over the map without the entries under the primary's own key: the unit's own
  entry never makes it rebuild, whether or not the test of line 283 (a key against the
  bare file name of the primary) passes over it, because a state with no changed range
  has no non-local change.
\<close>

theorem own_entry_never_triggers_rebuild:
  assumes "fst (loadAllInfo env jobs s w) = allInfos"
    and "getFirstSwiftPrimaryInput Cmd \<noteq> []"
    and "map_of allInfos (getFirstSwiftPrimaryInput Cmd) = Some me"
    and "changedRanges me = []"
  shows "fst (shouldScheduleCompileJob allInfos Cmd) =
         fst (didPrimaryParseAnyNonlocalNonprimaryChanges me
                (filename (getFirstSwiftPrimaryInput Cmd))
                (filter (\<lambda>(k, i). k \<noteq> getFirstSwiftPrimaryInput Cmd) allInfos))"
proof -
  let ?p = "getFirstSwiftPrimaryInput Cmd"
  have d: "distinct (map fst allInfos)"
    and inv: "\<forall>(k, i) \<in> set allInfos. changedRanges i = [] \<longrightarrow> nonlocalChangedRanges i = []"
    using loadAllInfo_invariant [OF assms(1)] by blast+
  have own: "\<forall>(k, i) \<in> set allInfos. k = ?p \<longrightarrow> nonlocalChangedRanges i = []"
  proof (clarify)
    fix i assume "(?p, i) \<in> set allInfos"
    then have "map_of allInfos ?p = Some i" using d by simp
    then have "i = me" using assms(3) by simp
    moreover have "nonlocalChangedRanges me = []"
      using inv assms(3,4) map_of_SomeD by fastforce
    ultimately show "nonlocalChangedRanges i = []" by simp
  qed
  have "fst (shouldScheduleCompileJob allInfos Cmd) =
        fst (didPrimaryParseAnyNonlocalNonprimaryChanges me (filename ?p) allInfos)"
    using assms(2,3,4) by (simp add: shouldSchedule_fst)
  also have "\<dots> = fst (didPrimaryParseAnyNonlocalNonprimaryChanges me (filename ?p)
                        (filter (\<lambda>(k, i). k \<noteq> ?p) allInfos))"
    unfolding didPrimaryParse_fst
    using wasEvery_without_own_entry [OF own] by simp
  finally show ?thesis .
qed

text \<open>
  Claim C10 at the map loaded for the two example jobs: the key \<^verbatim>\<open>src/a.swift\<close> is
  not the file name \<^verbatim>\<open>a.swift\<close>, so the scan does visit the unit's own entry.
\<close>

theorem own_entry_never_triggers_rebuild_witness:
  "fst (loadAllInfo exampleEnv [exampleJobA, exampleJobB] False exampleWorld) =
     [(''src/a.swift'', exampleUnchanged), (''src/b.swift'', exampleChanged)]
   \<and> map_of [(''src/a.swift'', exampleUnchanged), (''src/b.swift'', exampleChanged)]
        (getFirstSwiftPrimaryInput exampleJobA) = Some exampleUnchanged
   \<and> changedRanges exampleUnchanged = []
   \<and> fst (shouldScheduleCompileJob
             [(''src/a.swift'', exampleUnchanged), (''src/b.swift'', exampleChanged)]
             exampleJobA) =
      fst (didPrimaryParseAnyNonlocalNonprimaryChanges exampleUnchanged ''a.swift''
             [(''src/b.swift'', exampleChanged)])"
proof -
  have l: "fst (loadAllInfo exampleEnv [exampleJobA, exampleJobB] False exampleWorld) =
     [(''src/a.swift'', exampleUnchanged), (''src/b.swift'', exampleChanged)]"
    by (simp add: loadAllInfo_def load_defs StringMap_insert_def exampleWorld_def exampleEnv_def
          exampleJobA_def exampleJobB_def exampleUnchanged_def exampleChanged_def
          emptySwiftRangesFileContents_def)
  have p: "getFirstSwiftPrimaryInput exampleJobA \<noteq> []"
    and m: "map_of [(''src/a.swift'', exampleUnchanged), (''src/b.swift'', exampleChanged)]
        (getFirstSwiftPrimaryInput exampleJobA) = Some exampleUnchanged"
    and c: "changedRanges exampleUnchanged = []"
    by (simp_all add: exampleJobA_def exampleUnchanged_def)
  have f: "getFirstSwiftPrimaryInput exampleJobA = ''src/a.swift''"
    by (simp add: exampleJobA_def)
  have "fst (shouldScheduleCompileJob
             [(''src/a.swift'', exampleUnchanged), (''src/b.swift'', exampleChanged)]
             exampleJobA) =
      fst (didPrimaryParseAnyNonlocalNonprimaryChanges exampleUnchanged ''a.swift''
             [(''src/b.swift'', exampleChanged)])"
    using own_entry_never_triggers_rebuild [OF l p m c] by (simp add: f filename_def)
  with l m c show ?thesis by blast
qed

end
